theory Spec2Isabelle
  imports Complex_Main
begin

section \<open>JavaScript values\<close>

text \<open>
  Exceptions of the source are values: a \<open>TypeError\<close> is what a property read on
  \<open>null\<close>/\<open>undefined\<close> raises, a \<open>SyntaxError\<close> is what \<open>JSON.parse\<close> raises, and
  \<open>RequestFailed\<close> is a rejected call of the external API client (riotApi.js).
\<close>

datatype error = TypeError | SyntaxError | RequestFailed

text \<open>
  A payload is a value that the source either receives already parsed or as JSON text
  (\<open>typeof v === 'string' ? JSON.parse(v) : v\<close>). A text is abstracted by what
  \<open>JSON.parse\<close> makes of it: \<open>JText v\<close> parses to \<open>v\<close>, \<open>JMalformed\<close> is a non-empty
  text that \<open>JSON.parse\<close> rejects, \<open>JEmpty\<close> is the empty string (falsy, and rejected by
  \<open>JSON.parse\<close>), \<open>JNull\<close> is \<open>null\<close>/\<open>undefined\<close> (a NULL column).
\<close>

datatype 'a payload = JNull | JEmpty | JMalformed | JText 'a | JObject 'a

fun falsy :: "'a payload \<Rightarrow> bool" where
  "falsy JNull = True"
| "falsy JEmpty = True"
| "falsy _ = False"

fun isNull :: "'a payload \<Rightarrow> bool" where
  "isNull JNull = True"
| "isNull _ = False"

text \<open>\<open>typeof v === 'string' ? JSON.parse(v) : v\<close>; \<open>Inr None\<close> is the value \<open>null\<close>.\<close>

fun parseIfString :: "'a payload \<Rightarrow> error + 'a option" where
  "parseIfString JNull = Inr None"
| "parseIfString JEmpty = Inl SyntaxError"
| "parseIfString JMalformed = Inl SyntaxError"
| "parseIfString (JText v) = Inr (Some v)"
| "parseIfString (JObject v) = Inr (Some v)"

text \<open>\<open>n || 0\<close> on an optional number, and the truthiness of a number and of a string.\<close>

fun orZero :: "int option \<Rightarrow> int" where
  "orZero None = 0"
| "orZero (Some n) = n"

fun truthyNum :: "int option \<Rightarrow> int option" where
  "truthyNum None = None"
| "truthyNum (Some n) = (if n = 0 then None else Some n)"

fun truthyStr :: "string option \<Rightarrow> string option" where
  "truthyStr None = None"
| "truthyStr (Some s) = (if s = [] then None else Some s)"

text \<open>
  \<open>Array.prototype.find\<close> followed by \<open>indexOf\<close> of the element found: the elements of a
  parsed array are distinct objects, so the element found is known by its index.
\<close>

fun findIndex :: "('a \<Rightarrow> bool) \<Rightarrow> 'a list \<Rightarrow> nat option" where
  "findIndex P [] = None"
| "findIndex P (x # xs) = (if P x then Some 0 else map_option Suc (findIndex P xs))"

text \<open>
  \<open>Number.prototype.toFixed(d)\<close> read back by \<open>parseFloat\<close>: the nearest multiple of
  \<open>10^-d\<close>, a tie going away from zero. Numbers are exact rationals here; the source
  computes on IEEE doubles, whose quotient may differ from the exact one in the last bit.
\<close>

definition toFixed :: "nat \<Rightarrow> rat \<Rightarrow> rat" where
  "toFixed d v = sgn v * of_int \<lfloor>\<bar>v\<bar> * 10 ^ d + 1 / 2\<rfloor> / 10 ^ d"

section \<open>Match detail and timeline payloads\<close>

text \<open>
  The fields of the Match-V5 payloads that the modelled functions read. A field the source
  guards (\<open>||\<close>, \<open>?.\<close>, \<open>if (!v)\<close>) is optional; numbers of the payloads are integers.
\<close>

record perk_selection =
  perk :: "int option"

record perk_style =
  style :: "int option"
  selections :: "perk_selection list option"

record perks =
  styles :: "perk_style list option"

record participant =
  puuid :: string
  championName :: string
  teamId :: int
  participantId :: "int option"
  teamPosition :: "string option"
  lane :: "string option"
  kills :: int
  pentaKills :: "int option"
  firstBloodKill :: bool
  firstBloodAssist :: bool
  goldEarned :: "int option"
  totalDamageDealtToChampions :: "int option"
  totalMinionsKilled :: "int option"
  neutralMinionsKilled :: "int option"
  win :: bool
  p_perks :: "perks option"

record objective =
  obj_kills :: "int option"

record objectives =
  dragon :: "objective option"
  baron :: "objective option"
  riftHerald :: "objective option"

record team =
  t_teamId :: int
  t_objectives :: "objectives option"

record match_info =
  gameCreation :: "int option"
  gameDuration :: "int option"
  participants :: "participant list option"
  teams :: "team list"

record match_detail =
  info :: "match_info option"
  top_participants :: "participant list option"

record position =
  pos_x :: int
  pos_y :: int

record participant_frame =
  minionsKilled :: "int option"
  jungleMinionsKilled :: "int option"
  totalGold :: "int option"
  xp :: "int option"
  pf_position :: "position option"

record event =
  ev_type :: string
  timestamp :: int
  killerId :: "int option"
  victimId :: "int option"
  ev_position :: "position option"

record frame =
  fr_timestamp :: int
  participantFrames :: "(int \<rightharpoonup> participant_frame) option"
  events :: "event list option"

record timeline_participant =
  tp_puuid :: string
  tp_participantId :: "int option"

record timeline_info =
  frames :: "frame list option"
  tl_participants :: "timeline_participant list option"

record timeline =
  tl_info :: "timeline_info option"

section \<open>Timeline helpers of the badge evaluator\<close>

text \<open>
  \<open>getNearestFrame\<close>: the frame whose timestamp is closest to the given one, the first of
  them on a tie; \<open>undefined\<close> (\<open>frames[0]\<close>) for no frame at all.
\<close>

definition getNearestFrame :: "frame list \<Rightarrow> int \<Rightarrow> frame option" where
  "getNearestFrame fs t =
     (case fs of
        [] \<Rightarrow> None
      | first # _ \<Rightarrow>
          Some (fold (\<lambda>fr closest. if \<bar>fr_timestamp fr - t\<bar> < \<bar>fr_timestamp closest - t\<bar>
                                   then fr else closest) fs first))"

section \<open>AdvancedStatsComputer: computeAdvancedStatsForMatch\<close>

record adv_stats =
  csDiff15 :: "int option"
  goldDiff15 :: "int option"
  xpDiff15 :: "int option"
  firstBlood :: "int option"
  dmgGoldRatio :: "rat option"
  isolatedDeaths :: "nat option"
  objectiveRate :: "rat option"

text \<open>The struct the function starts from: every field \<open>null\<close> but \<open>firstBlood: 0\<close>.\<close>

definition initialResult :: adv_stats where
  "initialResult = \<lparr> csDiff15 = None, goldDiff15 = None, xpDiff15 = None,
     firstBlood = Some 0, dmgGoldRatio = None, isolatedDeaths = None,
     objectiveRate = None \<rparr>"

text \<open>\<open>info.info ? info.info.participants : info.participants\<close>\<close>

definition participantsOf :: "match_detail \<Rightarrow> participant list option" where
  "participantsOf d = (case info d of Some i \<Rightarrow> participants i | None \<Rightarrow> top_participants d)"

text \<open>\<open>participants.find(p => p.championName === myChampionName && p.teamId === myTeamId)\<close>\<close>

definition findMe :: "participant list \<Rightarrow> string \<Rightarrow> int \<Rightarrow> nat option" where
  "findMe ps myChampionName myTeamId =
     findIndex (\<lambda>p. championName p = myChampionName \<and> teamId p = myTeamId) ps"

text \<open>\<open>p.participantId || (participants.indexOf(p) + 1)\<close>, for the participant at index \<open>i\<close>.\<close>

definition pIdAt :: "participant list \<Rightarrow> nat \<Rightarrow> int" where
  "pIdAt ps i = (case truthyNum (participantId (ps ! i)) of Some n \<Rightarrow> n | None \<Rightarrow> int i + 1)"

text \<open>\<open>p.teamPosition || p.lane || ''\<close>\<close>

definition positionLabel :: "participant \<Rightarrow> string" where
  "positionLabel p =
     (case truthyStr (teamPosition p) of Some s \<Rightarrow> s
      | None \<Rightarrow> (case truthyStr (lane p) of Some s \<Rightarrow> s | None \<Rightarrow> []))"

text \<open>The lane opponent of \<open>me\<close>: the first enemy participant with the same position label.\<close>

definition laneOpponent :: "participant list \<Rightarrow> participant \<Rightarrow> nat option" where
  "laneOpponent ps me =
     (let myPosition = positionLabel me
      in findIndex (\<lambda>p. teamId p \<noteq> teamId me \<and> positionLabel p = myPosition
                         \<and> myPosition \<noteq> []) ps)"

text \<open>\<open>frames[15] || frames[frames.length - 1]\<close>\<close>

definition frame15 :: "frame list \<Rightarrow> frame option" where
  "frame15 fs = (if 15 < length fs then Some (fs ! 15)
                 else if fs = [] then None else Some (last fs))"

text \<open>The three lane differences at minute 15, or nothing when a guard of the source fails.\<close>

definition laneDiffs :: "participant list \<Rightarrow> nat \<Rightarrow> frame list \<Rightarrow> (int \<times> int \<times> int) option" where
  "laneDiffs ps i fs =
     (case frame15 fs of None \<Rightarrow> None
      | Some f15 \<Rightarrow>
     (case participantFrames f15 of None \<Rightarrow> None
      | Some pfs \<Rightarrow>
     (case pfs (pIdAt ps i) of None \<Rightarrow> None
      | Some myFrame \<Rightarrow>
     (case laneOpponent ps (ps ! i) of None \<Rightarrow> None
      | Some j \<Rightarrow>
     (case pfs (pIdAt ps j) of None \<Rightarrow> None
      | Some oppFrame \<Rightarrow>
         (let myCs = orZero (minionsKilled myFrame) + orZero (jungleMinionsKilled myFrame);
              oppCs = orZero (minionsKilled oppFrame) + orZero (jungleMinionsKilled oppFrame)
          in Some (myCs - oppCs,
                   orZero (totalGold myFrame) - orZero (totalGold oppFrame),
                   orZero (xp myFrame) - orZero (xp oppFrame))))))))"

text \<open>\<open>frames.flatMap(f => f.events || [])\<close> and the event lists filtered from it.\<close>

definition allEvents :: "frame list \<Rightarrow> event list" where
  "allEvents fs = concat (map (\<lambda>f. case events f of Some es \<Rightarrow> es | None \<Rightarrow> []) fs)"

definition killEventsOf :: "frame list \<Rightarrow> event list" where
  "killEventsOf fs = filter (\<lambda>e. ev_type e = ''CHAMPION_KILL'') (allEvents fs)"

definition objectiveEventsOf :: "frame list \<Rightarrow> event list" where
  "objectiveEventsOf fs =
     filter (\<lambda>e. ev_type e = ''ELITE_MONSTER_KILL'' \<or> ev_type e = ''BUILDING_KILL'') (allEvents fs)"

definition myDeathsOf :: "frame list \<Rightarrow> int \<Rightarrow> event list" where
  "myDeathsOf fs myPId = filter (\<lambda>e. victimId e = Some myPId) (killEventsOf fs)"

text \<open>The participant ids of the subject's team mates, the subject's own id left out.\<close>

definition myTeamPIdsOf :: "participant list \<Rightarrow> nat \<Rightarrow> int list" where
  "myTeamPIdsOf ps i =
     map (pIdAt ps)
       (filter (\<lambda>j. teamId (ps ! j) = teamId (ps ! i) \<and> pIdAt ps j \<noteq> pIdAt ps i)
          [0 ..< length ps])"

text \<open>
  \<open>frames[Math.min(Math.floor(t / 60000), frames.length - 1)]\<close>: \<open>undefined\<close> when the
  index is negative (no frame at all, or a negative timestamp).
\<close>

definition frameAt :: "frame list \<Rightarrow> int \<Rightarrow> frame option" where
  "frameAt fs t =
     (let frameIdx = min (t div 60000) (int (length fs) - 1)
      in if 0 \<le> frameIdx then Some (fs ! nat frameIdx) else None)"

text \<open>
  \<open>Math.sqrt(dx * dx + dy * dy) <= 1500\<close>. On integer coordinates the square root is
  at most 1500 exactly when the sum of squares is at most \<open>1500\<^sup>2\<close>.
\<close>

definition within1500 :: "position \<Rightarrow> position \<Rightarrow> bool" where
  "within1500 a b =
     (let dx = pos_x a - pos_x b; dy = pos_y a - pos_y b
      in dx * dx + dy * dy \<le> 1500 * 1500)"

text \<open>The inner loop over \<open>myTeamPIds\<close>, leaving at the first team mate in range.\<close>

fun hasNearbyTeammate :: "(int \<rightharpoonup> participant_frame) \<Rightarrow> position \<Rightarrow> int list \<Rightarrow> bool" where
  "hasNearbyTeammate pfs deathPos [] = False"
| "hasNearbyTeammate pfs deathPos (tmPId # rest) =
     (case pfs tmPId of
        None \<Rightarrow> hasNearbyTeammate pfs deathPos rest
      | Some tmFrame \<Rightarrow>
          (case pf_position tmFrame of
             None \<Rightarrow> hasNearbyTeammate pfs deathPos rest
           | Some p \<Rightarrow> if within1500 deathPos p then True
                       else hasNearbyTeammate pfs deathPos rest))"

text \<open>The inner loop over the objective events: one within 15 seconds of the death.\<close>

fun objectiveNearby :: "event list \<Rightarrow> event \<Rightarrow> bool" where
  "objectiveNearby [] death = False"
| "objectiveNearby (obj # rest) death =
     (if \<bar>timestamp obj - timestamp death\<bar> \<le> 15000 then True
      else objectiveNearby rest death)"

text \<open>The loop over \<open>myDeaths\<close>, with its counter \<open>isolatedCount\<close>.\<close>

fun isolatedLoop :: "frame list \<Rightarrow> int list \<Rightarrow> event list \<Rightarrow> event list \<Rightarrow> nat \<Rightarrow> nat" where
  "isolatedLoop fs tm objs [] isolatedCount = isolatedCount"
| "isolatedLoop fs tm objs (death # rest) isolatedCount =
     (case ev_position death of
        None \<Rightarrow> isolatedLoop fs tm objs rest (isolatedCount + 1)
      | Some deathPos \<Rightarrow>
     (case frameAt fs (timestamp death) of
        None \<Rightarrow> isolatedLoop fs tm objs rest (isolatedCount + 1)
      | Some nearFrame \<Rightarrow>
     (case participantFrames nearFrame of
        None \<Rightarrow> isolatedLoop fs tm objs rest (isolatedCount + 1)
      | Some pfs \<Rightarrow>
          if \<not> hasNearbyTeammate pfs deathPos tm \<and> \<not> objectiveNearby objs death
          then isolatedLoop fs tm objs rest (isolatedCount + 1)
          else isolatedLoop fs tm objs rest isolatedCount)))"

text \<open>
  The elite-monster kills of the subject's team:
  \<open>e.type === 'ELITE_MONSTER_KILL' && myTeamPIds.concat([myPId]).includes(e.killerId)\<close>.
\<close>

definition teamObjEventsOf :: "frame list \<Rightarrow> int list \<Rightarrow> int \<Rightarrow> event list" where
  "teamObjEventsOf fs tm myPId =
     filter (\<lambda>e. ev_type e = ''ELITE_MONSTER_KILL'' \<and>
                 (case killerId e of None \<Rightarrow> False | Some k \<Rightarrow> k \<in> set (tm @ [myPId])))
       (allEvents fs)"

text \<open>\<open>myDeathTimestamps.filter(t => t < obj.timestamp).pop()\<close>\<close>

definition recentDeathBefore :: "int list \<Rightarrow> int \<Rightarrow> int option" where
  "recentDeathBefore ts t =
     (case filter (\<lambda>d. d < t) ts of [] \<Rightarrow> None | d # ds \<Rightarrow> Some (last (d # ds)))"

text \<open>The fountain test of the objective-rate loop (its own thresholds, 1500 and 13500).\<close>

definition inFountainRough :: "int \<Rightarrow> position \<Rightarrow> bool" where
  "inFountainRough tid pos =
     (if tid = 100 then pos_x pos < 1500 \<and> pos_y pos < 1500
      else pos_x pos > 13500 \<and> pos_y pos > 13500)"

text \<open>The loop over \<open>teamObjEvents\<close>, with its counter \<open>aliveCount\<close>.\<close>

fun aliveLoop :: "frame list \<Rightarrow> int \<Rightarrow> int \<Rightarrow> int list \<Rightarrow> event list \<Rightarrow> nat \<Rightarrow> nat" where
  "aliveLoop fs myPId tid deathTs [] aliveCount = aliveCount"
| "aliveLoop fs myPId tid deathTs (obj # rest) aliveCount =
     (case truthyNum (recentDeathBefore deathTs (timestamp obj)) of
        None \<Rightarrow> aliveLoop fs myPId tid deathTs rest (aliveCount + 1)
      | Some recentDeath \<Rightarrow>
     (case frameAt fs (timestamp obj) of
        None \<Rightarrow> aliveLoop fs myPId tid deathTs rest aliveCount
      | Some fr \<Rightarrow>
     (case participantFrames fr of
        None \<Rightarrow> aliveLoop fs myPId tid deathTs rest aliveCount
      | Some pfs \<Rightarrow>
     (case pfs myPId of
        None \<Rightarrow> aliveLoop fs myPId tid deathTs rest aliveCount
      | Some pf \<Rightarrow>
     (case pf_position pf of
        None \<Rightarrow> aliveLoop fs myPId tid deathTs rest aliveCount
      | Some pos \<Rightarrow>
          if timestamp obj - recentDeath < 30000 \<and> inFountainRough tid pos
          then aliveLoop fs myPId tid deathTs rest aliveCount
          else aliveLoop fs myPId tid deathTs rest (aliveCount + 1))))))"

definition objectiveRateOf :: "participant list \<Rightarrow> nat \<Rightarrow> frame list \<Rightarrow> rat option" where
  "objectiveRateOf ps i fs =
     (let myPId = pIdAt ps i;
          teamObjEvents = teamObjEventsOf fs (myTeamPIdsOf ps i) myPId
      in if length teamObjEvents > 0
         then (let myDeathTimestamps = map timestamp (myDeathsOf fs myPId);
                   aliveCount = aliveLoop fs myPId (teamId (ps ! i)) myDeathTimestamps
                                  teamObjEvents 0
               in Some (toFixed 1 (of_nat aliveCount / of_nat (length teamObjEvents) * 100)))
         else None)"

text \<open>The first-blood flag and the damage/gold ratio, both read from the detail alone.\<close>

definition firstBloodOf :: "participant \<Rightarrow> int" where
  "firstBloodOf me = (if firstBloodKill me \<or> firstBloodAssist me then 1 else 0)"

definition dmgGoldRatioOf :: "participant \<Rightarrow> rat option" where
  "dmgGoldRatioOf me =
     (case goldEarned me of
        None \<Rightarrow> None
      | Some g \<Rightarrow> if g > 0
                  then Some (toFixed 3 (of_int (orZero (totalDamageDealtToChampions me)) / of_int g))
                  else None)"

text \<open>The part of the body that reads the subject's record of the detail.\<close>

definition detailStats :: "participant \<Rightarrow> adv_stats \<Rightarrow> adv_stats" where
  "detailStats me result =
     result\<lparr> firstBlood := Some (firstBloodOf me), dmgGoldRatio := dmgGoldRatioOf me \<rparr>"

text \<open>
  The part of the body that reads the timeline, from \<open>const frames = timeline.info.frames\<close>
  on: the lane differences, the isolated deaths, the objective rate.
\<close>

definition timelineStats :: "participant list \<Rightarrow> nat \<Rightarrow> frame list \<Rightarrow> adv_stats \<Rightarrow> adv_stats" where
  "timelineStats ps i fs result =
     (let r1 = (case laneDiffs ps i fs of
                  None \<Rightarrow> result
                | Some (c, g, x) \<Rightarrow>
                    result\<lparr> csDiff15 := Some c, goldDiff15 := Some g, xpDiff15 := Some x \<rparr>);
          myPId = pIdAt ps i;
          r2 = r1\<lparr> isolatedDeaths :=
                   Some (isolatedLoop fs (myTeamPIdsOf ps i) (objectiveEventsOf fs)
                           (myDeathsOf fs myPId) 0) \<rparr>
      in r2\<lparr> objectiveRate := objectiveRateOf ps i fs \<rparr>)"

text \<open>
  The body of the \<open>try\<close> block, on payloads of the types above: every array is an array
  of objects. It yields the struct as far as it has been filled and the exception raised
  inside, if any: an early \<open>return result\<close> raises nothing. On these payloads the body can
  raise only where it reads a whole payload; the body on payloads whose arrays are
  malformed is \<open>looseStatsBody\<close> below, of which this one is the restriction.
\<close>

definition statsBody ::
  "match_detail payload \<Rightarrow> timeline payload \<Rightarrow> string \<Rightarrow> int \<Rightarrow> adv_stats \<times> error option" where
  "statsBody matchData timelineData myChampionName myTeamId =
     (case parseIfString matchData of
        Inl e \<Rightarrow> (initialResult, Some e)
      | Inr None \<Rightarrow> (initialResult, Some TypeError)
      | Inr (Some d) \<Rightarrow>
     (case participantsOf d of
        None \<Rightarrow> (initialResult, None)
      | Some ps \<Rightarrow>
     (case findMe ps myChampionName myTeamId of
        None \<Rightarrow> (initialResult, None)
      | Some i \<Rightarrow>
         (let result = detailStats (ps ! i) initialResult
          in if falsy timelineData then (result, None)
             else (case parseIfString timelineData of
                     Inl e \<Rightarrow> (result, Some e)
                   | Inr None \<Rightarrow> (result, None)
                   | Inr (Some tline) \<Rightarrow>
                  (case tl_info tline of
                     None \<Rightarrow> (result, None)
                   | Some ti \<Rightarrow>
                  (case frames ti of
                     None \<Rightarrow> (result, None)
                   | Some fs \<Rightarrow> (timelineStats ps i fs result, None))))))))"

text \<open>
  \<open>computeAdvancedStatsForMatch\<close>: the \<open>catch\<close> clause logs the exception and the function
  returns the struct as it stands.
\<close>

definition computeAdvancedStatsForMatch ::
  "match_detail payload \<Rightarrow> timeline payload \<Rightarrow> string \<Rightarrow> int \<Rightarrow> adv_stats" where
  "computeAdvancedStatsForMatch matchData timelineData myChampionName myTeamId =
     fst (statsBody matchData timelineData myChampionName myTeamId)"

subsection \<open>The same function on payloads with malformed arrays\<close>

text \<open>
  The payloads again, with the arrays that the body walks as they may come: a value read
  where an array is expected is an array or some other value that is not null, and an
  entry of an array is an object or \<open>null\<close>. (A falsy value in place of an array is a
  missing field, as before.) These are the shapes on which the body raises part-way: a
  method of arrays called on a value that has none, and a property read on a null entry.
\<close>

record loose_frame =
  lf_timestamp :: int
  lf_participantFrames :: "(int \<rightharpoonup> participant_frame) option"
  lf_events :: "event option list option"

text \<open>
  The value of \<open>timeline.info.frames\<close>. For a value that is not an array,
  \<open>FramesNotArray\<close> carries the object that \<open>frames[15] || frames[frames.length - 1]\<close>
  yields on it, if it yields one.
\<close>

datatype loose_frames = FramesNotArray "loose_frame option" | FramesArray "loose_frame option list"

record loose_timeline_info =
  lt_frames :: "loose_frames option"

record loose_timeline =
  lt_info :: "loose_timeline_info option"

datatype loose_participants = ParticipantsNotArray | ParticipantsArray "participant option list"

record loose_info =
  li_participants :: "loose_participants option"

record loose_detail =
  ld_info :: "loose_info option"
  ld_top_participants :: "loose_participants option"

text \<open>
  \<open>Array.prototype.find\<close> with a callback that reads a property of the entry: a null entry
  reached before a match raises. It yields the index and the entry found.
\<close>

fun findE :: "('a \<Rightarrow> bool) \<Rightarrow> 'a option list \<Rightarrow> error + (nat \<times> 'a) option" where
  "findE P [] = Inr None"
| "findE P (None # xs) = Inl TypeError"
| "findE P (Some x # xs) =
     (if P x then Inr (Some (0, x))
      else (case findE P xs of
              Inl e \<Rightarrow> Inl e
            | Inr None \<Rightarrow> Inr None
            | Inr (Some (i, y)) \<Rightarrow> Inr (Some (Suc i, y))))"

text \<open>
  \<open>filter\<close> and \<open>flatMap\<close> with a callback that reads a property of every entry: they raise
  on an array with a null entry, and walk the objects otherwise.
\<close>

definition allObjects :: "'a option list \<Rightarrow> error + 'a list" where
  "allObjects xs = (case those xs of None \<Rightarrow> Inl TypeError | Some ys \<Rightarrow> Inr ys)"

text \<open>\<open>p.participantId || (participants.indexOf(p) + 1)\<close>, for the entry \<open>p\<close> found at index \<open>i\<close>.\<close>

definition pIdOf :: "participant \<Rightarrow> nat \<Rightarrow> int" where
  "pIdOf p i = (case truthyNum (participantId p) of Some n \<Rightarrow> n | None \<Rightarrow> int i + 1)"

text \<open>\<open>info.info ? info.info.participants : info.participants\<close>\<close>

definition looseParticipantsOf :: "loose_detail \<Rightarrow> loose_participants option" where
  "looseParticipantsOf d =
     (case ld_info d of Some i \<Rightarrow> li_participants i | None \<Rightarrow> ld_top_participants d)"

text \<open>\<open>frames[15] || frames[frames.length - 1]\<close>: a null entry is falsy.\<close>

fun looseFrame15 :: "loose_frames \<Rightarrow> loose_frame option" where
  "looseFrame15 (FramesNotArray fo) = fo"
| "looseFrame15 (FramesArray fes) =
     (case (if 15 < length fes then fes ! 15 else None) of
        Some f \<Rightarrow> Some f
      | None \<Rightarrow> if fes = [] then None else last fes)"

text \<open>
  The lane differences. The search for the lane opponent runs only when the subject has
  a frame at minute 15, and raises on a null participant reached before the opponent.
\<close>

definition looseLaneDiffs ::
  "participant option list \<Rightarrow> nat \<Rightarrow> participant \<Rightarrow> loose_frames \<Rightarrow> error + (int \<times> int \<times> int) option" where
  "looseLaneDiffs rps i me fv =
     (case looseFrame15 fv of None \<Rightarrow> Inr None
      | Some f15 \<Rightarrow>
     (case lf_participantFrames f15 of None \<Rightarrow> Inr None
      | Some pfs \<Rightarrow>
     (case pfs (pIdOf me i) of None \<Rightarrow> Inr None
      | Some myFrame \<Rightarrow>
     (case findE (\<lambda>p. teamId p \<noteq> teamId me \<and> positionLabel p = positionLabel me
                        \<and> positionLabel me \<noteq> []) rps of
        Inl e \<Rightarrow> Inl e
      | Inr None \<Rightarrow> Inr None
      | Inr (Some (j, opponent)) \<Rightarrow>
     (case pfs (pIdOf opponent j) of None \<Rightarrow> Inr None
      | Some oppFrame \<Rightarrow>
         (let myCs = orZero (minionsKilled myFrame) + orZero (jungleMinionsKilled myFrame);
              oppCs = orZero (minionsKilled oppFrame) + orZero (jungleMinionsKilled oppFrame)
          in Inr (Some (myCs - oppCs,
                        orZero (totalGold myFrame) - orZero (totalGold oppFrame),
                        orZero (xp myFrame) - orZero (xp oppFrame)))))))))"

text \<open>A frame all of whose event entries are objects, as a frame of the types above.\<close>

definition frameOfLoose :: "loose_frame \<Rightarrow> frame" where
  "frameOfLoose f =
     \<lparr> fr_timestamp = lf_timestamp f, participantFrames = lf_participantFrames f,
       events = (case lf_events f of
                   None \<Rightarrow> None
                 | Some es \<Rightarrow> Some (List.map_filter (\<lambda>e. e) es)) \<rparr>"

text \<open>
  The part of the body that reads the timeline. The lane differences are stored first;
  then \<open>frames.flatMap\<close> raises on a value that is not an array and on a null frame, the
  first \<open>allEvents.filter\<close> raises on a null event, and \<open>participants.filter\<close> raises on a
  null participant. Past these, every array is an array of objects, and the isolated
  deaths and the objective rate are computed as above.
\<close>

definition looseTimelineStats ::
  "participant option list \<Rightarrow> nat \<Rightarrow> participant \<Rightarrow> loose_frames \<Rightarrow> adv_stats
     \<Rightarrow> adv_stats \<times> error option" where
  "looseTimelineStats rps i me fv result =
     (case looseLaneDiffs rps i me fv of
        Inl e \<Rightarrow> (result, Some e)
      | Inr laneDiff \<Rightarrow>
         (let r1 = (case laneDiff of
                      None \<Rightarrow> result
                    | Some (c, g, x) \<Rightarrow>
                        result\<lparr> csDiff15 := Some c, goldDiff15 := Some g, xpDiff15 := Some x \<rparr>)
          in case fv of
               FramesNotArray _ \<Rightarrow> (r1, Some TypeError)
             | FramesArray fes \<Rightarrow>
            (case allObjects fes of
               Inl e \<Rightarrow> (r1, Some e)
             | Inr lfs \<Rightarrow>
            (case allObjects (concat (map (\<lambda>f. case lf_events f of Some es \<Rightarrow> es | None \<Rightarrow> [])
                                        lfs)) of
               Inl e \<Rightarrow> (r1, Some e)
             | Inr evs \<Rightarrow>
            (case allObjects rps of
               Inl e \<Rightarrow> (r1, Some e)
             | Inr ps \<Rightarrow>
                (let fs = map frameOfLoose lfs;
                     r2 = r1\<lparr> isolatedDeaths :=
                              Some (isolatedLoop fs (myTeamPIdsOf ps i) (objectiveEventsOf fs)
                                      (myDeathsOf fs (pIdAt ps i)) 0) \<rparr>
                 in (r2\<lparr> objectiveRate := objectiveRateOf ps i fs \<rparr>, None)))))))"

text \<open>The body of the \<open>try\<close> block on these payloads.\<close>

definition looseStatsBody ::
  "loose_detail payload \<Rightarrow> loose_timeline payload \<Rightarrow> string \<Rightarrow> int \<Rightarrow> adv_stats \<times> error option" where
  "looseStatsBody matchData timelineData myChampionName myTeamId =
     (case parseIfString matchData of
        Inl e \<Rightarrow> (initialResult, Some e)
      | Inr None \<Rightarrow> (initialResult, Some TypeError)
      | Inr (Some d) \<Rightarrow>
     (case looseParticipantsOf d of
        None \<Rightarrow> (initialResult, None)
      | Some ParticipantsNotArray \<Rightarrow> (initialResult, Some TypeError)
      | Some (ParticipantsArray rps) \<Rightarrow>
     (case findE (\<lambda>p. championName p = myChampionName \<and> teamId p = myTeamId) rps of
        Inl e \<Rightarrow> (initialResult, Some e)
      | Inr None \<Rightarrow> (initialResult, None)
      | Inr (Some (i, me)) \<Rightarrow>
         (let result = detailStats me initialResult
          in if falsy timelineData then (result, None)
             else (case parseIfString timelineData of
                     Inl e \<Rightarrow> (result, Some e)
                   | Inr None \<Rightarrow> (result, None)
                   | Inr (Some tline) \<Rightarrow>
                  (case lt_info tline of
                     None \<Rightarrow> (result, None)
                   | Some ti \<Rightarrow>
                  (case lt_frames ti of
                     None \<Rightarrow> (result, None)
                   | Some fv \<Rightarrow> looseTimelineStats rps i me fv result)))))))"

text \<open>
  The function on these payloads, with its \<open>try\<close> and \<open>catch\<close>: after the body, and after
  the \<open>catch\<close> clause when the body has raised (it logs the message of the exception), the
  function returns the struct as it stands. \<open>Inl\<close> would be an exception leaving the
  function.
\<close>

definition computeAdvancedStatsForMatchLoose ::
  "loose_detail payload \<Rightarrow> loose_timeline payload \<Rightarrow> string \<Rightarrow> int \<Rightarrow> error + adv_stats" where
  "computeAdvancedStatsForMatchLoose matchData timelineData myChampionName myTeamId =
     (case looseStatsBody matchData timelineData myChampionName myTeamId of
        (result, None) \<Rightarrow> Inr result
      | (result, Some e) \<Rightarrow> Inr result)"

text \<open>A payload of the types above as one of these: its arrays are arrays of objects.\<close>

definition loosenFrame :: "frame \<Rightarrow> loose_frame" where
  "loosenFrame f =
     \<lparr> lf_timestamp = fr_timestamp f, lf_participantFrames = participantFrames f,
       lf_events = map_option (map Some) (events f) \<rparr>"

definition loosenTimeline :: "timeline \<Rightarrow> loose_timeline" where
  "loosenTimeline tline =
     \<lparr> lt_info = map_option
         (\<lambda>ti. \<lparr> lt_frames = map_option (\<lambda>fs. FramesArray (map (\<lambda>f. Some (loosenFrame f)) fs))
                                (frames ti) \<rparr>)
         (tl_info tline) \<rparr>"

definition loosenDetail :: "match_detail \<Rightarrow> loose_detail" where
  "loosenDetail d =
     \<lparr> ld_info = map_option
         (\<lambda>i. \<lparr> li_participants = map_option (\<lambda>ps. ParticipantsArray (map Some ps))
                                     (participants i) \<rparr>)
         (info d),
       ld_top_participants = map_option (\<lambda>ps. ParticipantsArray (map Some ps))
                               (top_participants d) \<rparr>"

section \<open>SyncEngine: syncMatches\<close>

text \<open>
  A row of the table \<open>matches\<close>: the columns that the modelled functions read back (the
  eight columns of the completeness test, the creation time of the cursors, the subject's
  champion and team, the two payloads and the seven derived columns, kept as one struct).
  The other columns are copied from the payload and never read by the code modelled here.
  The table is the list of its rows; \<open>matchId\<close> is its primary key. The calls of the store
  (\<open>dbGet\<close>, \<open>dbAll\<close>, \<open>dbRun\<close>) are taken to succeed, and the progress callback and the
  pauses between requests, which change neither the store nor the result, are left out.
\<close>

record match_row =
  row_matchId :: string
  row_gameCreation :: "int option"
  row_gameDuration :: "int option"
  row_totalMinionsKilled :: "int option"
  row_teamDragons :: "int option"
  row_teamBarons :: "int option"
  row_teamRiftHeralds :: "int option"
  row_primaryRune :: "int option"
  row_teamKills :: "int option"
  row_championName :: "string option"
  row_teamId :: "int option"
  row_rawJson :: "match_detail payload"
  row_timelineJson :: "timeline payload"
  row_stats :: adv_stats

text \<open>
  The external API client. \<open>getMatchIds\<close> takes the number of the listing call within the
  run first, so that a retried call may be answered differently; detail and timeline are
  asked once per id.
\<close>

record api =
  getMatchIds :: "nat \<Rightarrow> string \<Rightarrow> int \<Rightarrow> nat option \<Rightarrow> error + string list"
  getMatchData :: "string \<Rightarrow> error + match_detail"
  getMatchTimeline :: "string \<Rightarrow> error + timeline"

definition RANKED_SEASON_START :: int where
  "RANKED_SEASON_START = 1767225600"

definition SPECIAL_QUEUES :: "nat list" where
  "SPECIAL_QUEUES = [2400, 1700, 1710]"

definition MAX_RETRIES :: nat where
  "MAX_RETRIES = 2"

text \<open>\<open>SELECT ... FROM matches WHERE matchId = ?\<close>\<close>

definition dbGetMatch :: "match_row list \<Rightarrow> string \<Rightarrow> match_row option" where
  "dbGetMatch tbl mid = find (\<lambda>r. row_matchId r = mid) tbl"

text \<open>\<open>SELECT MAX(gameCreation)\<close> and \<open>SELECT MIN(gameCreation)\<close>: NULL on no value.\<close>

definition latestTime :: "match_row list \<Rightarrow> int option" where
  "latestTime tbl =
     (case List.map_filter row_gameCreation tbl of [] \<Rightarrow> None | t # ts \<Rightarrow> Some (fold max ts t))"

definition oldestTime :: "match_row list \<Rightarrow> int option" where
  "oldestTime tbl =
     (case List.map_filter row_gameCreation tbl of [] \<Rightarrow> None | t # ts \<Rightarrow> Some (fold min ts t))"

text \<open>
  The forward and backward listing (or the first listing of an empty store): the ids
  pushed on \<open>allMatchIds\<close> and the number of listing calls made. A failed call is not
  caught here: it rejects \<open>syncMatches\<close>.
\<close>

definition discoverIds :: "api \<Rightarrow> match_row list \<Rightarrow> string \<Rightarrow> error + (string list \<times> nat)" where
  "discoverIds a tbl pid =
     (case truthyNum (latestTime tbl) of
        Some latest \<Rightarrow>
          (case getMatchIds a 0 pid (latest div 1000 + 1) None of
             Inl e \<Rightarrow> Inl e
           | Inr forwardMatches \<Rightarrow>
               (case truthyNum (oldestTime tbl) of
                  None \<Rightarrow> Inr (forwardMatches, 1)
                | Some oldest \<Rightarrow>
                    if oldest div 1000 > RANKED_SEASON_START + 86400
                    then (case getMatchIds a 1 pid RANKED_SEASON_START None of
                            Inl e \<Rightarrow> Inl e
                          | Inr backwardMatches \<Rightarrow>
                              Inr (forwardMatches @
                                   filter (\<lambda>mid. mid \<notin> set (map row_matchId tbl)) backwardMatches,
                                   2))
                    else Inr (forwardMatches, 1)))
      | None \<Rightarrow>
          (case getMatchIds a 0 pid RANKED_SEASON_START None of
             Inl e \<Rightarrow> Inl e
           | Inr ids \<Rightarrow> Inr (ids, 1)))"

text \<open>
  One special queue: the attempts left (the source counts \<open>attempt\<close> from 0 up to
  \<open>MAX_RETRIES\<close>) and the number of the next listing call. A failed attempt is caught and
  retried; after the last one the queue is given up and contributes no id.
\<close>

fun fetchSpecial :: "api \<Rightarrow> string \<Rightarrow> nat \<Rightarrow> nat \<Rightarrow> nat \<Rightarrow> string list \<times> nat" where
  "fetchSpecial a pid queueId 0 n = ([], n)"
| "fetchSpecial a pid queueId (Suc attemptsLeft) n =
     (case getMatchIds a n pid RANKED_SEASON_START (Some queueId) of
        Inr specialMatches \<Rightarrow> (specialMatches, Suc n)
      | Inl e \<Rightarrow> fetchSpecial a pid queueId attemptsLeft (Suc n))"

fun fetchSpecialQueues :: "api \<Rightarrow> string \<Rightarrow> nat list \<Rightarrow> nat \<Rightarrow> string list" where
  "fetchSpecialQueues a pid [] n = []"
| "fetchSpecialQueues a pid (queueId # rest) n =
     (case fetchSpecial a pid queueId (MAX_RETRIES + 1) n of
        (specialMatches, n') \<Rightarrow> specialMatches @ fetchSpecialQueues a pid rest n')"

text \<open>
  \<open>[...new Set(xs)]\<close>: a \<open>Set\<close> keeps its elements in insertion order and ignores the
  insertion of an element it has.
\<close>

fun setAddAll :: "'a list \<Rightarrow> 'a list \<Rightarrow> 'a list" where
  "setAddAll seen [] = seen"
| "setAddAll seen (x # xs) = setAddAll (if x \<in> set seen then seen else seen @ [x]) xs"

definition newSet :: "'a list \<Rightarrow> 'a list" where
  "newSet xs = setAddAll [] xs"

text \<open>\<open>allMatchIds.unshift(...specialMatchIds); matchIds = [...new Set(allMatchIds)]\<close>\<close>

definition matchIdsToProcess :: "string list \<Rightarrow> string list \<Rightarrow> string list" where
  "matchIdsToProcess specialMatchIds allMatchIds = newSet (specialMatchIds @ allMatchIds)"

text \<open>The completeness test of a stored row.\<close>

definition needsFetch :: "match_row option \<Rightarrow> bool" where
  "needsFetch row =
     (case row of
        None \<Rightarrow> True
      | Some r \<Rightarrow> row_gameDuration r = None \<or> row_totalMinionsKilled r = None \<or>
                  row_teamDragons r = None \<or> row_teamBarons r = None \<or>
                  row_teamRiftHeralds r = None \<or> row_primaryRune r = None \<or>
                  row_teamKills r = None \<or> isNull (row_timelineJson r))"

text \<open>\<open>objectives.<name>?.kills || 0\<close> and \<open>me.perks?.styles?.[0]?.selections?.[0]?.perk || null\<close>\<close>

definition objectiveKills :: "objectives option \<Rightarrow> (objectives \<Rightarrow> objective option) \<Rightarrow> int" where
  "objectiveKills objs sel =
     (case objs of
        None \<Rightarrow> 0
      | Some os \<Rightarrow> (case sel os of None \<Rightarrow> 0 | Some ob \<Rightarrow> orZero (obj_kills ob)))"

definition primaryRuneOf :: "participant \<Rightarrow> int option" where
  "primaryRuneOf me =
     (case p_perks me of
        None \<Rightarrow> None
      | Some pk \<Rightarrow>
     (case styles pk of
        None \<Rightarrow> None
      | Some [] \<Rightarrow> None
      | Some (st # _) \<Rightarrow>
     (case selections st of
        None \<Rightarrow> None
      | Some [] \<Rightarrow> None
      | Some (s # _) \<Rightarrow> truthyNum (perk s))))"

text \<open>The values that INSERT and UPDATE both write, computed from the fetched payloads.\<close>

definition fetchedColumns ::
  "match_detail \<Rightarrow> timeline option \<Rightarrow> match_info \<Rightarrow> participant list \<Rightarrow> participant \<Rightarrow> match_row \<Rightarrow> match_row" where
  "fetchedColumns data timelineData minfo ps me r =
     (let myObjectives =
            (case find (\<lambda>t. t_teamId t = teamId me) (teams minfo) of
               None \<Rightarrow> None | Some t \<Rightarrow> t_objectives t);
          teamKills = sum_list (map kills (filter (\<lambda>p. teamId p = teamId me) ps));
          advStats = computeAdvancedStatsForMatch (JObject data)
                       (case timelineData of None \<Rightarrow> JNull | Some t \<Rightarrow> JObject t)
                       (championName me) (teamId me)
      in r\<lparr> row_gameDuration := gameDuration minfo,
            row_totalMinionsKilled :=
              Some (orZero (totalMinionsKilled me) + orZero (neutralMinionsKilled me)),
            row_teamDragons := Some (objectiveKills myObjectives dragon),
            row_teamBarons := Some (objectiveKills myObjectives baron),
            row_teamRiftHeralds := Some (objectiveKills myObjectives riftHerald),
            row_primaryRune := primaryRuneOf me,
            row_teamKills := Some teamKills,
            row_teamId := Some (teamId me),
            row_rawJson := JText data,
            row_timelineJson := (case timelineData of None \<Rightarrow> JNull | Some t \<Rightarrow> JText t),
            row_stats := advStats \<rparr>)"

text \<open>The row of the INSERT: the key, the creation time and the champion come with it.\<close>

definition insertedRow ::
  "string \<Rightarrow> match_detail \<Rightarrow> timeline option \<Rightarrow> match_info \<Rightarrow> participant list \<Rightarrow> participant \<Rightarrow> match_row" where
  "insertedRow mid data timelineData minfo ps me =
     fetchedColumns data timelineData minfo ps me
       \<lparr> row_matchId = mid, row_gameCreation = gameCreation minfo, row_gameDuration = None,
         row_totalMinionsKilled = None, row_teamDragons = None, row_teamBarons = None,
         row_teamRiftHeralds = None, row_primaryRune = None, row_teamKills = None,
         row_championName = Some (championName me), row_teamId = None,
         row_rawJson = JNull, row_timelineJson = JNull, row_stats = initialResult \<rparr>"

text \<open>What one unit of work resolves to; \<open>NoSubject\<close> is the unit that ends without a value
  because the player is not among the participants of the fetched match.\<close>

datatype unit_outcome = New | Updated | Skipped | Failed error | NoSubject

definition processUnit ::
  "api \<Rightarrow> string \<Rightarrow> match_row list \<Rightarrow> string \<Rightarrow> unit_outcome \<times> match_row list" where
  "processUnit a pid tbl mid =
     (let row = dbGetMatch tbl mid
      in if needsFetch row
         then (case getMatchData a mid of
                 Inl e \<Rightarrow> (Failed e, tbl)
               | Inr data \<Rightarrow>
                   (let timelineData = (case getMatchTimeline a mid of
                                          Inl e \<Rightarrow> None | Inr t \<Rightarrow> Some t)
                    in case info data of
                         None \<Rightarrow> (Failed TypeError, tbl)
                       | Some minfo \<Rightarrow>
                      (case participants minfo of
                         None \<Rightarrow> (Failed TypeError, tbl)
                       | Some ps \<Rightarrow>
                      (case findIndex (\<lambda>p. puuid p = pid) ps of
                         None \<Rightarrow> (NoSubject, tbl)
                       | Some i \<Rightarrow>
                      (case row of
                         None \<Rightarrow>
                           (New, tbl @ [insertedRow mid data timelineData minfo ps (ps ! i)])
                       | Some _ \<Rightarrow>
                           (Updated,
                            map (\<lambda>r. if row_matchId r = mid
                                      then fetchedColumns data timelineData minfo ps (ps ! i) r
                                      else r) tbl))))))
         else (Skipped, tbl))"

record sync_result =
  newMatches :: nat
  skipped :: nat
  total :: nat
  newMatchIds :: "string list option"

text \<open>
  The loop over the ids. The batches of two only pace the requests: the ids are distinct
  and a unit reads and writes the row of its own id alone, so the units are taken in the
  order of the list (the two units of a batch may finish in either order, which shows
  only in the order of their ids in \<open>newMatchIds\<close>). The state is the table and the
  counters \<open>newMatches\<close>, \<open>skipped\<close> and \<open>newMatchIds\<close>.
\<close>

fun processAll ::
  "api \<Rightarrow> string \<Rightarrow> string list \<Rightarrow> match_row list \<Rightarrow> nat \<Rightarrow> nat \<Rightarrow> string list
     \<Rightarrow> (nat \<times> nat \<times> string list) \<times> match_row list" where
  "processAll a pid [] tbl new skp newIds = ((new, skp, newIds), tbl)"
| "processAll a pid (mid # rest) tbl new skp newIds =
     (case processUnit a pid tbl mid of
        (New, tbl') \<Rightarrow> processAll a pid rest tbl' (new + 1) skp (newIds @ [mid])
      | (Skipped, tbl') \<Rightarrow> processAll a pid rest tbl' new (skp + 1) newIds
      | (_, tbl') \<Rightarrow> processAll a pid rest tbl' new skp newIds)"

text \<open>
  \<open>syncMatches\<close>: the value it resolves to and the table it leaves, or the exception it
  rejects with. A field of the returned object that is not set is \<open>None\<close>.
\<close>

definition syncMatches ::
  "api \<Rightarrow> match_row list \<Rightarrow> string \<Rightarrow> error + (sync_result \<times> match_row list)" where
  "syncMatches a tbl pid =
     (case discoverIds a tbl pid of
        Inl e \<Rightarrow> Inl e
      | Inr (allMatchIds, n) \<Rightarrow>
          (let specialMatchIds = fetchSpecialQueues a pid SPECIAL_QUEUES n;
               matchIds = matchIdsToProcess specialMatchIds allMatchIds
           in if length matchIds = 0
              then Inr (\<lparr> newMatches = 0, skipped = 0, total = 0, newMatchIds = None \<rparr>, tbl)
              else (case processAll a pid matchIds tbl 0 0 [] of
                      ((new, skp, newIds), tbl') \<Rightarrow>
                        Inr (\<lparr> newMatches = new, skipped = skp, total = length matchIds,
                               newMatchIds = Some newIds \<rparr>, tbl'))))"

section \<open>BadgeEvaluator: buildContext and evaluateBadges\<close>

record badge_context =
  ctx_match :: match_row
  ctx_me :: participant
  ctx_info :: match_info
  ctx_participants :: "participant list"
  ctx_myTeam :: "participant list"
  ctx_enemyTeam :: "participant list"
  ctx_teamKills :: int
  ctx_gameDuration :: "int option"
  ctx_win :: bool
  ctx_myTeamId :: int
  ctx_enemyTeamId :: int
  ctx_hasTimeline :: bool
  ctx_myPId :: "int option"
  ctx_myTeamIds :: "int list"
  ctx_enemyTeamIds :: "int list"
  ctx_killEvents :: "event list"
  ctx_objectiveEvents :: "event list"
  ctx_buildingEvents :: "event list"
  ctx_wardEvents :: "event list"
  ctx_levelEvents :: "event list"
  ctx_frames :: "frame list"

text \<open>
  The object \<open>puuidToTlId\<close>: a later timeline participant with the same puuid overwrites
  an earlier one; a participant without \<open>participantId\<close> stores \<open>undefined\<close>.
\<close>

definition puuidToTlId :: "timeline_participant list \<Rightarrow> string \<Rightarrow> int option" where
  "puuidToTlId tps = fold (\<lambda>tp m. m(tp_puuid tp := tp_participantId tp)) tps (\<lambda>_. None)"

text \<open>\<open>tl.info?.frames || []\<close>: the frames of a timeline, none when it carries no frame list.\<close>

definition timelineFrames :: "timeline \<Rightarrow> frame list" where
  "timelineFrames tline =
     (case tl_info tline of
        None \<Rightarrow> []
      | Some ti \<Rightarrow> (case frames ti of None \<Rightarrow> [] | Some l \<Rightarrow> l))"

text \<open>
  The part of the context that is read from the timeline. A participant whose puuid has
  no timeline id (\<open>tlId != null\<close> fails) is in neither list of ids.
\<close>

definition withTimeline :: "timeline \<Rightarrow> badge_context \<Rightarrow> badge_context" where
  "withTimeline tline ctx =
     (let tps = (case tl_info tline of
                   None \<Rightarrow> []
                 | Some ti \<Rightarrow> (case tl_participants ti of None \<Rightarrow> [] | Some l \<Rightarrow> l));
          ids = puuidToTlId tps;
          me = ctx_me ctx;
          fs = timelineFrames tline;
          evs = allEvents fs
      in ctx\<lparr> ctx_hasTimeline := True,
              ctx_myPId := truthyNum (ids (puuid me)),
              ctx_myTeamIds :=
                List.map_filter (\<lambda>p. if teamId p = teamId me then ids (puuid p) else None)
                  (ctx_participants ctx),
              ctx_enemyTeamIds :=
                List.map_filter (\<lambda>p. if teamId p \<noteq> teamId me then ids (puuid p) else None)
                  (ctx_participants ctx),
              ctx_frames := fs,
              ctx_killEvents :=
                sort_key timestamp (filter (\<lambda>e. ev_type e = ''CHAMPION_KILL'') evs),
              ctx_objectiveEvents := filter (\<lambda>e. ev_type e = ''ELITE_MONSTER_KILL'') evs,
              ctx_buildingEvents := filter (\<lambda>e. ev_type e = ''BUILDING_KILL'') evs,
              ctx_wardEvents :=
                filter (\<lambda>e. ev_type e = ''WARD_PLACED'' \<or> ev_type e = ''WARD_KILL'') evs,
              ctx_levelEvents := filter (\<lambda>e. ev_type e = ''LEVEL_UP'') evs \<rparr>)"

text \<open>
  \<open>buildContext\<close>: \<open>Inr None\<close> is the \<open>null\<close> it returns for a match without detail or
  without the subject; \<open>Inl\<close> is an exception, which nothing in \<open>buildContext\<close> catches.
\<close>

definition buildContext :: "match_row \<Rightarrow> error + badge_context option" where
  "buildContext match =
     (if falsy (row_rawJson match) then Inr None
      else (case parseIfString (row_rawJson match) of
              Inl e \<Rightarrow> Inl e
            | Inr None \<Rightarrow> Inl TypeError
            | Inr (Some raw) \<Rightarrow>
           (case info raw of
              None \<Rightarrow> Inl TypeError
            | Some minfo \<Rightarrow>
           (case participants minfo of
              None \<Rightarrow> Inl TypeError
            | Some ps \<Rightarrow>
           (case find (\<lambda>p. Some (championName p) = row_championName match \<and>
                            Some (teamId p) = row_teamId match) ps of
              None \<Rightarrow> Inr None
            | Some me \<Rightarrow>
               (let ctx = \<lparr> ctx_match = match, ctx_me = me, ctx_info = minfo,
                            ctx_participants = ps,
                            ctx_myTeam = filter (\<lambda>p. teamId p = teamId me) ps,
                            ctx_enemyTeam = filter (\<lambda>p. teamId p \<noteq> teamId me) ps,
                            ctx_teamKills =
                              sum_list (map kills (filter (\<lambda>p. teamId p = teamId me) ps)),
                            ctx_gameDuration = gameDuration minfo,
                            ctx_win = win me,
                            ctx_myTeamId = teamId me,
                            ctx_enemyTeamId = (if teamId me = 100 then 200 else 100),
                            ctx_hasTimeline = False, ctx_myPId = None,
                            ctx_myTeamIds = [], ctx_enemyTeamIds = [],
                            ctx_killEvents = [], ctx_objectiveEvents = [],
                            ctx_buildingEvents = [], ctx_wardEvents = [],
                            ctx_levelEvents = [], ctx_frames = [] \<rparr>
                in if falsy (row_timelineJson match) then Inr (Some ctx)
                   else (case parseIfString (row_timelineJson match) of
                           Inl e \<Rightarrow> Inl e
                         | Inr None \<Rightarrow> Inr (Some ctx)
                         | Inr (Some tline) \<Rightarrow> Inr (Some (withTimeline tline ctx)))))))))"

text \<open>
  An entry of the catalog: its name, its description and its predicate. A predicate
  yields the truth value of what it returns, or the exception it raises.
\<close>

record badge =
  badge_name :: string
  badge_description :: string
  evaluate :: "badge_context \<Rightarrow> error + bool"

text \<open>
  Three entries of the catalog \<open>BADGES\<close> as the source writes them: one that is never
  earned, one superlative over the team, one threshold on the subject.
\<close>

definition davidVsGoliath :: badge where
  "davidVsGoliath =
     \<lparr> badge_name = ''David vs Goliath'',
       badge_description = ''You survived on a prayer and 5% health while taking down 3 enemies. Peak yordle energy.'',
       evaluate = (\<lambda>ctx. Inr False) \<rparr>"

definition kingOfTheDocks :: badge where
  "kingOfTheDocks =
     \<lparr> badge_name = ''King of the Docks'',
       badge_description = ''You finished with the highest gold count in the lobby. Everyone else is just a stowaway.'',
       evaluate = (\<lambda>ctx.
         let myGold = orZero (goldEarned (ctx_me ctx))
         in Inr (list_all (\<lambda>p. orZero (goldEarned p) \<le> myGold) (ctx_participants ctx))) \<rparr>"

definition bloodCrowned :: badge where
  "bloodCrowned =
     \<lparr> badge_name = ''The Blood-Crowned'',
       badge_description = ''One Pentakill is a fluke; two in one game is a war crime. Welcome to the high command.'',
       evaluate = (\<lambda>ctx. Inr (orZero (pentaKills (ctx_me ctx)) \<ge> 2)) \<rparr>"

text \<open>
  The loop over the catalog with its list \<open>earned\<close>: an entry is pushed when its predicate
  returns a true value; an exception of the predicate is caught and the entry skipped.
\<close>

fun evaluateLoop :: "badge_context \<Rightarrow> badge list \<Rightarrow> (string \<times> string) list \<Rightarrow> (string \<times> string) list" where
  "evaluateLoop ctx [] earned = earned"
| "evaluateLoop ctx (b # rest) earned =
     (case evaluate b ctx of
        Inr True \<Rightarrow> evaluateLoop ctx rest (earned @ [(badge_name b, badge_description b)])
      | Inr False \<Rightarrow> evaluateLoop ctx rest earned
      | Inl err \<Rightarrow> evaluateLoop ctx rest earned)"

text \<open>
  \<open>evaluateBadges\<close>, for a catalog \<open>BADGES\<close>: the source's catalog is a constant list of 39
  entries, and what is proved of \<open>evaluateBadges\<close> here holds for every catalog.
\<close>

definition evaluateBadges :: "badge list \<Rightarrow> match_row \<Rightarrow> error + (string \<times> string) list" where
  "evaluateBadges BADGES match =
     (case buildContext match of
        Inl e \<Rightarrow> Inl e
      | Inr None \<Rightarrow> Inr []
      | Inr (Some ctx) \<Rightarrow> Inr (evaluateLoop ctx BADGES []))"

section \<open>RankCache: getPlayerRank\<close>

record league_entry =
  tier :: "string option"
  rank :: "string option"
  leaguePoints :: "int option"

record league_data =
  solo :: "league_entry option"
  flex :: "league_entry option"

record rank_row =
  rk_puuid :: string
  soloTier :: "string option"
  soloRank :: "string option"
  soloLP :: "int option"
  flexTier :: "string option"
  flexRank :: "string option"
  flexLP :: "int option"
  fetchedAt :: int

definition RANK_CACHE_TTL_MS :: int where
  "RANK_CACHE_TTL_MS = 24 * 60 * 60 * 1000"

text \<open>
  The table \<open>player_ranks\<close>, with \<open>puuid\<close> its primary key, is a map from the puuid to the
  row. \<open>SELECT * FROM player_ranks WHERE puuid = ? AND fetchedAt > ?\<close>:
\<close>

definition freshRank :: "(string \<rightharpoonup> rank_row) \<Rightarrow> string \<Rightarrow> int \<Rightarrow> rank_row option" where
  "freshRank ranks pid cutoff =
     (case ranks pid of
        None \<Rightarrow> None
      | Some r \<Rightarrow> if fetchedAt r > cutoff then Some r else None)"

text \<open>The row built from the league data fetched at time \<open>now\<close>.\<close>

definition rankRowOf :: "string \<Rightarrow> league_data \<Rightarrow> int \<Rightarrow> rank_row" where
  "rankRowOf pid leagueData now =
     \<lparr> rk_puuid = pid,
       soloTier = (case solo leagueData of None \<Rightarrow> None | Some e \<Rightarrow> truthyStr (tier e)),
       soloRank = (case solo leagueData of None \<Rightarrow> None | Some e \<Rightarrow> truthyStr (rank e)),
       soloLP = (case solo leagueData of None \<Rightarrow> None | Some e \<Rightarrow> leaguePoints e),
       flexTier = (case flex leagueData of None \<Rightarrow> None | Some e \<Rightarrow> truthyStr (tier e)),
       flexRank = (case flex leagueData of None \<Rightarrow> None | Some e \<Rightarrow> truthyStr (rank e)),
       flexLP = (case flex leagueData of None \<Rightarrow> None | Some e \<Rightarrow> leaguePoints e),
       fetchedAt = now \<rparr>"

text \<open>
  \<open>getPlayerRank\<close>: \<open>getLeagueByPuuid\<close> is the answer of the remote call, \<open>now0\<close> and \<open>now1\<close>
  are the two readings of \<open>Date.now()\<close> (before the cache lookup, after the fetch). It
  yields the value returned (\<open>None\<close> is \<open>null\<close>) and the table it leaves.
\<close>

definition getPlayerRank ::
  "(string \<Rightarrow> error + league_data) \<Rightarrow> int \<Rightarrow> int \<Rightarrow> (string \<rightharpoonup> rank_row) \<Rightarrow> string \<Rightarrow> int
     \<Rightarrow> rank_row option \<times> (string \<rightharpoonup> rank_row)" where
  "getPlayerRank getLeagueByPuuid now0 now1 ranks pid maxAgeMs =
     (case freshRank ranks pid (now0 - maxAgeMs) of
        Some cached \<Rightarrow> (Some cached, ranks)
      | None \<Rightarrow>
          (case getLeagueByPuuid pid of
             Inr leagueData \<Rightarrow>
               (let row = rankRowOf pid leagueData now1
                in (Some row, ranks(pid \<mapsto> row)))
           | Inl err \<Rightarrow> (ranks pid, ranks)))"

section \<open>Sample data\<close>

text \<open>Concrete stores, answers of the API and payloads, at which the theorems are run.\<close>

text \<open>
  A match of three participants without \<open>teamPosition\<close>, who all carry the lane
  \<open>BOTTOM\<close>: Ahri and Braum on team 100, Caitlyn on team 200.
\<close>

definition sampleParticipant :: "string \<Rightarrow> string \<Rightarrow> int \<Rightarrow> int \<Rightarrow> int \<Rightarrow> participant" where
  "sampleParticipant pid champion tid n gold =
     \<lparr> puuid = pid, championName = champion, teamId = tid, participantId = Some n,
       teamPosition = Some [], lane = Some ''BOTTOM'', kills = 0, pentaKills = None,
       firstBloodKill = False, firstBloodAssist = False, goldEarned = Some gold,
       totalDamageDealtToChampions = Some 12000, totalMinionsKilled = None,
       neutralMinionsKilled = None, win = True, p_perks = None \<rparr>"

definition sampleParticipants :: "participant list" where
  "sampleParticipants =
     [sampleParticipant ''puuid-1'' ''Ahri'' 100 1 9000,
      sampleParticipant ''puuid-2'' ''Braum'' 100 2 7000,
      sampleParticipant ''puuid-3'' ''Caitlyn'' 200 3 8000]"

definition sampleDetail :: match_detail where
  "sampleDetail =
     \<lparr> info = Some \<lparr> gameCreation = Some 1770000000000, gameDuration = Some 1800,
                     participants = Some sampleParticipants, teams = [] \<rparr>,
       top_participants = None \<rparr>"

text \<open>
  Its timeline has one frame. Ahri stands at (1000, 1000), Braum at (2000, 1000),
  Caitlyn at (12000, 12000). Ahri dies twice: at (1000, 1000), 1000 units from Braum, and
  at (9000, 9000), far from Braum. Braum kills two elite monsters, 25 and 55 seconds
  after Ahri's second death.
\<close>

definition sampleParticipantFrame :: "int \<Rightarrow> int \<Rightarrow> int \<Rightarrow> participant_frame" where
  "sampleParticipantFrame cs px py =
     \<lparr> minionsKilled = Some cs, jungleMinionsKilled = None, totalGold = Some (cs * 20),
       xp = Some (cs * 30), pf_position = Some \<lparr> pos_x = px, pos_y = py \<rparr> \<rparr>"

definition sampleDeathNearAlly :: event where
  "sampleDeathNearAlly =
     \<lparr> ev_type = ''CHAMPION_KILL'', timestamp = 30000, killerId = Some 3, victimId = Some 1,
       ev_position = Some \<lparr> pos_x = 1000, pos_y = 1000 \<rparr> \<rparr>"

definition sampleDeathAlone :: event where
  "sampleDeathAlone =
     \<lparr> ev_type = ''CHAMPION_KILL'', timestamp = 45000, killerId = Some 3, victimId = Some 1,
       ev_position = Some \<lparr> pos_x = 9000, pos_y = 9000 \<rparr> \<rparr>"

definition sampleMonsterKill :: "int \<Rightarrow> event" where
  "sampleMonsterKill t =
     \<lparr> ev_type = ''ELITE_MONSTER_KILL'', timestamp = t, killerId = Some 2, victimId = None,
       ev_position = None \<rparr>"

definition sampleFrame :: frame where
  "sampleFrame =
     \<lparr> fr_timestamp = 0,
       participantFrames =
         Some [1 \<mapsto> sampleParticipantFrame 10 1000 1000,
               2 \<mapsto> sampleParticipantFrame 50 2000 1000,
               3 \<mapsto> sampleParticipantFrame 30 12000 12000],
       events = Some [sampleDeathNearAlly, sampleDeathAlone,
                      sampleMonsterKill 70000, sampleMonsterKill 100000] \<rparr>"

definition sampleTimeline :: timeline where
  "sampleTimeline =
     \<lparr> tl_info = Some \<lparr> frames = Some [sampleFrame], tl_participants = None \<rparr> \<rparr>"


text \<open>
  A timeline of two frames, at 0 and at 60000 milliseconds. Ahri dies once, at 59000
  milliseconds, at (1000, 1000). Braum stands at (9000, 9000) in the first frame and at
  (2000, 1000) in the second. No objective is taken.
\<close>

definition sampleLateDeath :: event where
  "sampleLateDeath =
     \<lparr> ev_type = ''CHAMPION_KILL'', timestamp = 59000, killerId = Some 3, victimId = Some 1,
       ev_position = Some \<lparr> pos_x = 1000, pos_y = 1000 \<rparr> \<rparr>"

definition sampleFrameMinute0 :: frame where
  "sampleFrameMinute0 =
     \<lparr> fr_timestamp = 0,
       participantFrames =
         Some [1 \<mapsto> sampleParticipantFrame 10 1000 1000,
               2 \<mapsto> sampleParticipantFrame 50 9000 9000,
               3 \<mapsto> sampleParticipantFrame 30 12000 12000],
       events = Some [sampleLateDeath] \<rparr>"

definition sampleFrameMinute1 :: frame where
  "sampleFrameMinute1 =
     \<lparr> fr_timestamp = 60000,
       participantFrames =
         Some [1 \<mapsto> sampleParticipantFrame 10 1000 1000,
               2 \<mapsto> sampleParticipantFrame 50 2000 1000,
               3 \<mapsto> sampleParticipantFrame 30 12000 12000],
       events = Some [] \<rparr>"

definition sampleTimelineLateDeath :: timeline where
  "sampleTimelineLateDeath =
     \<lparr> tl_info = Some \<lparr> frames = Some [sampleFrameMinute0, sampleFrameMinute1],
                        tl_participants = None \<rparr> \<rparr>"

text \<open>
  A stored row of that match, for the player of Ahri, under a given id: every column of
  the completeness test is set.
\<close>

definition completeRow :: "string \<Rightarrow> match_row" where
  "completeRow mid =
     \<lparr> row_matchId = mid, row_gameCreation = Some 1770000000000, row_gameDuration = Some 1800,
       row_totalMinionsKilled = Some 200, row_teamDragons = Some 2, row_teamBarons = Some 1,
       row_teamRiftHeralds = Some 0, row_primaryRune = Some 8005, row_teamKills = Some 30,
       row_championName = Some ''Ahri'', row_teamId = Some 100,
       row_rawJson = JText sampleDetail, row_timelineJson = JText sampleTimeline,
       row_stats = initialResult \<rparr>"

definition sampleMatch :: match_row where
  "sampleMatch = completeRow ''EUW1_9''"

text \<open>
  A client whose listing calls all answer the same ids and whose detail and timeline
  calls fail.
\<close>

definition constantListing :: "string list \<Rightarrow> api" where
  "constantListing ids =
     \<lparr> getMatchIds = (\<lambda>n pid startTime queue. Inr ids),
       getMatchData = (\<lambda>mid. Inl RequestFailed),
       getMatchTimeline = (\<lambda>mid. Inl RequestFailed) \<rparr>"

text \<open>A catalog entry whose predicate raises on every context.\<close>

definition faultyBadge :: badge where
  "faultyBadge =
     \<lparr> badge_name = ''Faulty'', badge_description = ''Raises on every context'',
       evaluate = (\<lambda>ctx. Inl TypeError) \<rparr>"

text \<open>A cached rank, fetched at time 1000.\<close>

definition sampleRank :: rank_row where
  "sampleRank =
     \<lparr> rk_puuid = ''puuid-1'', soloTier = Some ''GOLD'', soloRank = Some ''II'',
       soloLP = Some 40, flexTier = None, flexRank = None, flexLP = None, fetchedAt = 1000 \<rparr>"

section \<open>Properties of the SyncEngine\<close>

subsection \<open>The ids to process\<close>

lemma setAddAll_append: "setAddAll seen (xs @ ys) = setAddAll (setAddAll seen xs) ys"
  by (induction xs arbitrary: seen) auto

lemma set_setAddAll: "set (setAddAll seen xs) = set seen \<union> set xs"
  by (induction xs arbitrary: seen) auto

lemma distinct_setAddAll: "distinct seen \<Longrightarrow> distinct (setAddAll seen xs)"
  by (induction xs arbitrary: seen) auto

lemma set_newSet: "set (newSet xs) = set xs"
  by (simp add: newSet_def set_setAddAll)

lemma distinct_newSet: "distinct (newSet xs)"
  by (simp add: newSet_def distinct_setAddAll)

lemma newSet_snoc: "newSet (xs @ [x]) = (if x \<in> set xs then newSet xs else newSet xs @ [x])"
  by (simp add: newSet_def setAddAll_append set_setAddAll)

lemma setAddAll_newSet: "setAddAll seen xs = seen @ filter (\<lambda>x. x \<notin> set seen) (newSet xs)"
proof (induction xs rule: rev_induct)
  case Nil
  show ?case by (simp add: newSet_def)
next
  case (snoc x xs)
  have "setAddAll seen (xs @ [x]) = setAddAll (setAddAll seen xs) [x]"
    by (rule setAddAll_append)
  then show ?case
    using snoc by (auto simp: newSet_snoc set_setAddAll set_newSet)
qed

lemma newSet_append: "newSet (xs @ ys) = newSet xs @ filter (\<lambda>x. x \<notin> set xs) (newSet ys)"
proof -
  have "newSet (xs @ ys) = setAddAll (newSet xs) ys"
    by (simp add: newSet_def setAddAll_append)
  then show ?thesis
    by (simp add: setAddAll_newSet [of "newSet xs"] set_newSet)
qed

text \<open>The element at position \<open>i\<close> is kept exactly when it does not occur before \<open>i\<close>.\<close>

lemma newSet_first_occurrences:
  "newSet xs = map (\<lambda>i. xs ! i) (filter (\<lambda>i. xs ! i \<notin> set (take i xs)) [0 ..< length xs])"
proof (induction xs rule: rev_induct)
  case Nil
  show ?case by (simp add: newSet_def)
next
  case (snoc x xs)
  have f: "filter (\<lambda>i. (xs @ [x]) ! i \<notin> set (take i (xs @ [x]))) [0 ..< length xs]
           = filter (\<lambda>i. xs ! i \<notin> set (take i xs)) [0 ..< length xs]"
    by (rule filter_cong) (auto simp: nth_append)
  have m: "map (\<lambda>i. (xs @ [x]) ! i) (filter (\<lambda>i. xs ! i \<notin> set (take i xs)) [0 ..< length xs])
           = map (\<lambda>i. xs ! i) (filter (\<lambda>i. xs ! i \<notin> set (take i xs)) [0 ..< length xs])"
    by (rule map_cong) (auto simp: nth_append)
  have l: "take (length xs) (xs @ [x]) = xs"
    by simp
  show ?case
    using snoc by (simp add: newSet_snoc f m l del: take_append)
qed

text \<open>
  Claim C2. Whatever the ids of the special queues, of the forward listing and of the
  backward listing are, the list of ids that \<open>syncMatches\<close> processes has no id twice,
  holds every id collected, keeps of each id its first occurrence in the order
  special, forward, backward (position \<open>i\<close> is kept exactly when its id does not occur
  before \<open>i\<close>), and is a list of the special-queue ids followed by a list of the ids that
  came from the forward and backward listings only.
\<close>

theorem matchIds_deduplicated:
  "distinct (matchIdsToProcess special (forward @ backward)) \<and>
   set (matchIdsToProcess special (forward @ backward))
     = set special \<union> set forward \<union> set backward \<and>
   matchIdsToProcess special (forward @ backward) =
     map (\<lambda>i. (special @ forward @ backward) ! i)
       (filter (\<lambda>i. (special @ forward @ backward) ! i
                       \<notin> set (take i (special @ forward @ backward)))
          [0 ..< length (special @ forward @ backward)]) \<and>
   (\<exists>pre post. matchIdsToProcess special (forward @ backward) = pre @ post \<and>
      set pre = set special \<and> set post = (set forward \<union> set backward) - set special)"
proof -
  have 1: "distinct (matchIdsToProcess special (forward @ backward))"
    by (simp add: matchIdsToProcess_def distinct_newSet)
  have 2: "set (matchIdsToProcess special (forward @ backward))
             = set special \<union> set forward \<union> set backward"
    by (simp add: matchIdsToProcess_def set_newSet Un_assoc)
  have 3: "matchIdsToProcess special (forward @ backward) =
     map (\<lambda>i. (special @ forward @ backward) ! i)
       (filter (\<lambda>i. (special @ forward @ backward) ! i
                       \<notin> set (take i (special @ forward @ backward)))
          [0 ..< length (special @ forward @ backward)])"
    unfolding matchIdsToProcess_def by (rule newSet_first_occurrences)
  have "matchIdsToProcess special (forward @ backward) =
          newSet special @ filter (\<lambda>x. x \<notin> set special) (newSet (forward @ backward))"
    unfolding matchIdsToProcess_def by (rule newSet_append)
  moreover have "set (newSet special) = set special"
    by (rule set_newSet)
  moreover have "set (filter (\<lambda>x. x \<notin> set special) (newSet (forward @ backward)))
                 = (set forward \<union> set backward) - set special"
    by (auto simp: set_newSet)
  ultimately have 4: "\<exists>pre post. matchIdsToProcess special (forward @ backward) = pre @ post \<and>
      set pre = set special \<and> set post = (set forward \<union> set backward) - set special"
    by blast
  from 1 2 3 4 show ?thesis by blast
qed

text \<open>
  The theorem at overlapping lists: the special id \<open>S1\<close> comes back in the backward
  listing and the id \<open>A\<close> is both special and listed forward.
\<close>

theorem matchIds_deduplicated_witness:
  "matchIdsToProcess [''S1'', ''A''] ([''A'', ''B'', ''A''] @ [''S1'', ''C''])
     = [''S1'', ''A'', ''B'', ''C''] \<and>
   distinct (matchIdsToProcess [''S1'', ''A''] ([''A'', ''B'', ''A''] @ [''S1'', ''C'']))"
  using matchIds_deduplicated [of "[''S1'', ''A'']" "[''A'', ''B'', ''A'']" "[''S1'', ''C'']"]
  by (simp add: matchIdsToProcess_def newSet_def)

subsection \<open>Units of work over a store that has the ids\<close>

lemma needsFetch_iff:
  "(\<not> needsFetch row) =
     (\<exists>r. row = Some r \<and> row_gameDuration r \<noteq> None \<and> row_totalMinionsKilled r \<noteq> None \<and>
          row_teamDragons r \<noteq> None \<and> row_teamBarons r \<noteq> None \<and>
          row_teamRiftHeralds r \<noteq> None \<and> row_primaryRune r \<noteq> None \<and>
          row_teamKills r \<noteq> None \<and> \<not> isNull (row_timelineJson r))"
  by (cases row) (auto simp: needsFetch_def)

lemma processUnit_complete:
  "\<not> needsFetch (dbGetMatch tbl mid) \<Longrightarrow> processUnit a pid tbl mid = (Skipped, tbl)"
  by (simp add: processUnit_def)

lemma processAll_complete:
  "\<forall>mid \<in> set ids. \<not> needsFetch (dbGetMatch tbl mid) \<Longrightarrow>
   processAll a pid ids tbl new skp newIds = ((new, skp + length ids, newIds), tbl)"
  by (induction ids arbitrary: skp) (simp_all add: processUnit_complete)

lemma fetchSpecial_listed:
  "fetchSpecial a pid q k n = (ids, n') \<Longrightarrow> mid \<in> set ids \<Longrightarrow>
   \<exists>m s qq l. getMatchIds a m pid s qq = Inr l \<and> mid \<in> set l"
proof (induction k arbitrary: n)
  case 0
  then show ?case by simp
next
  case (Suc k)
  show ?case
  proof (cases "getMatchIds a n pid RANKED_SEASON_START (Some q)")
    case (Inl e)
    with Suc.prems have "fetchSpecial a pid q k (Suc n) = (ids, n')" by simp
    from Suc.IH [OF this Suc.prems(2)] show ?thesis .
  next
    case (Inr l)
    with Suc.prems have "ids = l" by simp
    with Inr Suc.prems(2) show ?thesis by blast
  qed
qed

lemma fetchSpecialQueues_listed:
  "mid \<in> set (fetchSpecialQueues a pid qs n) \<Longrightarrow>
   \<exists>m s qq l. getMatchIds a m pid s qq = Inr l \<and> mid \<in> set l"
proof (induction qs arbitrary: n)
  case Nil
  then show ?case by simp
next
  case (Cons q qs)
  obtain ids n' where f: "fetchSpecial a pid q (MAX_RETRIES + 1) n = (ids, n')"
    by (cases "fetchSpecial a pid q (MAX_RETRIES + 1) n")
  with Cons.prems have "mid \<in> set ids \<or> mid \<in> set (fetchSpecialQueues a pid qs n')"
    by simp
  then show ?case
    using fetchSpecial_listed [OF f] Cons.IH by blast
qed

lemma discoverIds_listed:
  "discoverIds a tbl pid = Inr (ids, n) \<Longrightarrow> mid \<in> set ids \<Longrightarrow>
   \<exists>m s qq l. getMatchIds a m pid s qq = Inr l \<and> mid \<in> set l"
  unfolding discoverIds_def
  by (auto split: option.splits sum.splits if_splits; blast)

lemma discoverIds_succeeds:
  assumes "\<And>n s. \<exists>ids. getMatchIds a n pid s None = Inr ids"
  shows "\<exists>ids n. discoverIds a tbl pid = Inr (ids, n)"
proof -
  obtain g where g: "\<And>n s. getMatchIds a n pid s None = Inr (g n s)"
    using assms by metis
  show ?thesis
    unfolding discoverIds_def by (simp add: g split: option.splits)
qed

text \<open>
  Claim C1. Let the plain listing calls of the run answer, and let every id that any
  listing call of the run answers be stored with the eight required columns set. Then
  \<open>syncMatches\<close> returns, with \<open>newMatches = 0\<close>; every unit is skipped and the store is left
  as it was.
\<close>

theorem sync_idempotent:
  assumes listing: "\<And>n startTime. \<exists>ids. getMatchIds a n pid startTime None = Inr ids"
    and persisted: "\<And>n startTime queue ids mid.
          getMatchIds a n pid startTime queue = Inr ids \<Longrightarrow> mid \<in> set ids \<Longrightarrow>
          \<exists>r. dbGetMatch tbl mid = Some r \<and> row_gameDuration r \<noteq> None \<and>
              row_totalMinionsKilled r \<noteq> None \<and> row_teamDragons r \<noteq> None \<and>
              row_teamBarons r \<noteq> None \<and> row_teamRiftHeralds r \<noteq> None \<and>
              row_primaryRune r \<noteq> None \<and> row_teamKills r \<noteq> None \<and>
              \<not> isNull (row_timelineJson r)"
  shows "\<exists>r. syncMatches a tbl pid = Inr (r, tbl) \<and> newMatches r = 0 \<and> skipped r = total r"
proof -
  obtain allIds n where d: "discoverIds a tbl pid = Inr (allIds, n)"
    using discoverIds_succeeds [of a pid tbl] listing by blast
  let ?special = "fetchSpecialQueues a pid SPECIAL_QUEUES n"
  let ?ids = "matchIdsToProcess ?special allIds"
  have "\<forall>mid \<in> set ?ids. \<not> needsFetch (dbGetMatch tbl mid)"
  proof
    fix mid assume "mid \<in> set ?ids"
    then have "mid \<in> set ?special \<or> mid \<in> set allIds"
      by (simp add: matchIdsToProcess_def set_newSet)
    then have "\<exists>m s qq l. getMatchIds a m pid s qq = Inr l \<and> mid \<in> set l"
      using fetchSpecialQueues_listed discoverIds_listed [OF d] by blast
    then show "\<not> needsFetch (dbGetMatch tbl mid)"
      using persisted unfolding needsFetch_iff by blast
  qed
  then have "processAll a pid ?ids tbl 0 0 [] = ((0, 0 + length ?ids, []), tbl)"
    by (rule processAll_complete)
  then show ?thesis
    by (simp add: syncMatches_def d Let_def)
qed

text \<open>The theorem at a store of two complete rows whose ids the listing returns.\<close>

theorem sync_idempotent_witness:
  "(\<exists>r. syncMatches (constantListing [''EUW1_7'', ''EUW1_8''])
          [completeRow ''EUW1_7'', completeRow ''EUW1_8''] ''player''
        = Inr (r, [completeRow ''EUW1_7'', completeRow ''EUW1_8'']) \<and>
        newMatches r = 0 \<and> skipped r = total r) \<and>
   syncMatches (constantListing [''EUW1_7'', ''EUW1_8''])
     [completeRow ''EUW1_7'', completeRow ''EUW1_8''] ''player''
   = Inr (\<lparr> newMatches = 0, skipped = 2, total = 2, newMatchIds = Some [] \<rparr>,
          [completeRow ''EUW1_7'', completeRow ''EUW1_8''])"
proof
  show "\<exists>r. syncMatches (constantListing [''EUW1_7'', ''EUW1_8''])
          [completeRow ''EUW1_7'', completeRow ''EUW1_8''] ''player''
        = Inr (r, [completeRow ''EUW1_7'', completeRow ''EUW1_8'']) \<and>
        newMatches r = 0 \<and> skipped r = total r"
  proof (rule sync_idempotent)
    fix n startTime
    show "\<exists>ids. getMatchIds (constantListing [''EUW1_7'', ''EUW1_8'']) n ''player'' startTime None
            = Inr ids"
      by (simp add: constantListing_def)
  next
    fix n startTime queue ids mid
    assume "getMatchIds (constantListing [''EUW1_7'', ''EUW1_8'']) n ''player'' startTime queue
              = Inr ids"
      and "mid \<in> set ids"
    then show "\<exists>r. dbGetMatch [completeRow ''EUW1_7'', completeRow ''EUW1_8''] mid = Some r \<and>
          row_gameDuration r \<noteq> None \<and>
          row_totalMinionsKilled r \<noteq> None \<and> row_teamDragons r \<noteq> None \<and>
          row_teamBarons r \<noteq> None \<and> row_teamRiftHeralds r \<noteq> None \<and>
          row_primaryRune r \<noteq> None \<and> row_teamKills r \<noteq> None \<and>
          \<not> isNull (row_timelineJson r)"
      by (auto simp: constantListing_def dbGetMatch_def completeRow_def)
  qed
  show "syncMatches (constantListing [''EUW1_7'', ''EUW1_8''])
       [completeRow ''EUW1_7'', completeRow ''EUW1_8''] ''player''
       = Inr (\<lparr> newMatches = 0, skipped = 2, total = 2, newMatchIds = Some [] \<rparr>,
          [completeRow ''EUW1_7'', completeRow ''EUW1_8''])"
    by (simp add: syncMatches_def discoverIds_def latestTime_def oldestTime_def
        List.map_filter_simps completeRow_def constantListing_def SPECIAL_QUEUES_def MAX_RETRIES_def
        RANKED_SEASON_START_def matchIdsToProcess_def newSet_def processUnit_def
        dbGetMatch_def needsFetch_def eval_nat_numeral)
qed

text \<open>
  Claim C3. The result of \<open>syncMatches\<close> when no id is to be processed: the early return
  gives \<open>newMatches\<close>, \<open>skipped\<close> and \<open>total\<close> and leaves \<open>newMatchIds\<close> unset, where the
  return at the end of the function sets all four fields.
\<close>

theorem sync_empty_result:
  "syncMatches (constantListing []) [] ''player''
   = Inr (\<lparr> newMatches = 0, skipped = 0, total = 0, newMatchIds = None \<rparr>, [])"
  by (simp add: syncMatches_def discoverIds_def latestTime_def oldestTime_def
        List.map_filter_simps constantListing_def SPECIAL_QUEUES_def MAX_RETRIES_def
        matchIdsToProcess_def newSet_def eval_nat_numeral)

section \<open>Properties of the AdvancedStatsComputer\<close>

subsection \<open>Reaching the timeline part\<close>

lemma findIndex_Some:
  "findIndex P xs = Some i \<Longrightarrow> i < length xs \<and> P (xs ! i)"
proof (induction xs arbitrary: i)
  case Nil
  then show ?case by simp
next
  case (Cons x xs)
  then show ?case
    by (cases "P x") auto
qed

lemma findMe_Some:
  "findMe ps c t = Some i \<Longrightarrow> i < length ps \<and> championName (ps ! i) = c \<and> teamId (ps ! i) = t"
  unfolding findMe_def by (drule findIndex_Some) simp

text \<open>What the function returns once the detail is read: the timeline decides, for every
  subject alike, whether and on which frames the timeline part of the body runs.\<close>

lemma stats_of_timeline:
  assumes "parseIfString mdt = Inr (Some d)" and "participantsOf d = Some ps"
  shows "\<exists>fso. \<forall>c t i. findMe ps c t = Some i \<longrightarrow>
           computeAdvancedStatsForMatch mdt tld c t =
             (case fso of None \<Rightarrow> detailStats (ps ! i) initialResult
              | Some fs \<Rightarrow> timelineStats ps i fs (detailStats (ps ! i) initialResult))"
proof (cases "parseIfString tld")
  case (Inl e)
  then have "\<forall>c t i. findMe ps c t = Some i \<longrightarrow>
      computeAdvancedStatsForMatch mdt tld c t = detailStats (ps ! i) initialResult"
    by (simp add: computeAdvancedStatsForMatch_def statsBody_def assms Let_def)
  then show ?thesis
    by (intro exI [of _ None]) simp
next
  case (Inr v)
  show ?thesis
  proof (cases "falsy tld \<or> v = None \<or> tl_info (the v) = None \<or> frames (the (tl_info (the v))) = None")
    case True
    then have "\<forall>c t i. findMe ps c t = Some i \<longrightarrow>
        computeAdvancedStatsForMatch mdt tld c t = detailStats (ps ! i) initialResult"
      using Inr
      by (auto simp: computeAdvancedStatsForMatch_def statsBody_def assms Let_def
          split: option.splits)
    then show ?thesis
      by (intro exI [of _ None]) simp
  next
    case False
    then obtain tline ti fs where "\<not> falsy tld" "v = Some tline" "tl_info tline = Some ti"
      "frames ti = Some fs"
      by auto
    then have "\<forall>c t i. findMe ps c t = Some i \<longrightarrow>
        computeAdvancedStatsForMatch mdt tld c t
          = timelineStats ps i fs (detailStats (ps ! i) initialResult)"
      using Inr
      by (simp add: computeAdvancedStatsForMatch_def statsBody_def assms Let_def)
    then show ?thesis
      by (intro exI [of _ "Some fs"]) simp
  qed
qed

lemma parsed_not_falsy: "parseIfString p = Inr (Some v) \<Longrightarrow> \<not> falsy p"
  by (cases p) simp_all

lemma stats_reached:
  assumes "parseIfString mdt = Inr (Some d)" and "participantsOf d = Some ps"
    and "findMe ps c t = Some i"
    and "parseIfString tld = Inr (Some tline)" and "tl_info tline = Some ti"
    and "frames ti = Some fs"
  shows "computeAdvancedStatsForMatch mdt tld c t
           = timelineStats ps i fs (detailStats (ps ! i) initialResult)"
  using assms parsed_not_falsy [OF assms(4)]
  by (simp add: computeAdvancedStatsForMatch_def statsBody_def Let_def)

lemma timelineStats_fields:
  "csDiff15 (timelineStats ps i fs r)
     = (case laneDiffs ps i fs of None \<Rightarrow> csDiff15 r | Some (c, g, x) \<Rightarrow> Some c)"
  "goldDiff15 (timelineStats ps i fs r)
     = (case laneDiffs ps i fs of None \<Rightarrow> goldDiff15 r | Some (c, g, x) \<Rightarrow> Some g)"
  "xpDiff15 (timelineStats ps i fs r)
     = (case laneDiffs ps i fs of None \<Rightarrow> xpDiff15 r | Some (c, g, x) \<Rightarrow> Some x)"
  "isolatedDeaths (timelineStats ps i fs r)
     = Some (isolatedLoop fs (myTeamPIdsOf ps i) (objectiveEventsOf fs)
               (myDeathsOf fs (pIdAt ps i)) 0)"
  "objectiveRate (timelineStats ps i fs r) = objectiveRateOf ps i fs"
  by (simp_all add: timelineStats_def Let_def split: option.splits prod.splits)

lemma detailStats_fields:
  "csDiff15 (detailStats me initialResult) = None"
  "goldDiff15 (detailStats me initialResult) = None"
  "xpDiff15 (detailStats me initialResult) = None"
  "isolatedDeaths (detailStats me initialResult) = None"
  "objectiveRate (detailStats me initialResult) = None"
  "firstBlood (detailStats me initialResult) = Some (firstBloodOf me)"
  "dmgGoldRatio (detailStats me initialResult) = dmgGoldRatioOf me"
  by (simp_all add: detailStats_def initialResult_def)

lemma laneDiffs_swap:
  assumes "laneOpponent ps (ps ! i) = Some j" and "laneOpponent ps (ps ! j) = Some i"
  shows "laneDiffs ps j fs = map_option (\<lambda>(c, g, x). (- c, - g, - x)) (laneDiffs ps i fs)"
  using assms by (simp add: laneDiffs_def Let_def split: option.splits)

subsection \<open>Lane differences\<close>

text \<open>
  Claim C5, as stated, fails: the lane opponent is the first enemy with the subject's
  position label, and the subject need not be the first of its own team with that label.
  In the sample match Braum's lane opponent is Caitlyn, Caitlyn's lane opponent is Ahri
  (who is listed before Braum), and both Braum's and Caitlyn's \<open>csDiff15\<close> are \<open>20\<close>.
\<close>

theorem lane_diffs_swap_counterexample:
  "findMe sampleParticipants ''Braum'' 100 = Some 1 \<and>
   laneOpponent sampleParticipants (sampleParticipants ! 1) = Some 2 \<and>
   findMe sampleParticipants ''Caitlyn'' 200 = Some 2 \<and>
   csDiff15 (computeAdvancedStatsForMatch (JObject sampleDetail) (JObject sampleTimeline)
              ''Braum'' 100) = Some 20 \<and>
   csDiff15 (computeAdvancedStatsForMatch (JObject sampleDetail) (JObject sampleTimeline)
              ''Caitlyn'' 200) = Some 20 \<and>
   csDiff15 (computeAdvancedStatsForMatch (JObject sampleDetail) (JObject sampleTimeline)
              ''Caitlyn'' 200)
     \<noteq> map_option uminus
         (csDiff15 (computeAdvancedStatsForMatch (JObject sampleDetail) (JObject sampleTimeline)
                     ''Braum'' 100))"
proof -
  have 1: "findMe sampleParticipants ''Braum'' 100 = Some 1"
    by (simp add: findMe_def sampleParticipants_def sampleParticipant_def)
  have 2: "laneOpponent sampleParticipants (sampleParticipants ! 1) = Some 2"
    by (simp add: laneOpponent_def positionLabel_def sampleParticipants_def sampleParticipant_def)
  have 3: "findMe sampleParticipants ''Caitlyn'' 200 = Some 2"
    by (simp add: findMe_def sampleParticipants_def sampleParticipant_def)
  have 4: "csDiff15 (computeAdvancedStatsForMatch (JObject sampleDetail) (JObject sampleTimeline)
                      ''Braum'' 100) = Some 20"
    by code_simp
  have 5: "csDiff15 (computeAdvancedStatsForMatch (JObject sampleDetail) (JObject sampleTimeline)
                      ''Caitlyn'' 200) = Some 20"
    by code_simp
  have 6: "csDiff15 (computeAdvancedStatsForMatch (JObject sampleDetail) (JObject sampleTimeline)
                      ''Caitlyn'' 200)
     \<noteq> map_option uminus
         (csDiff15 (computeAdvancedStatsForMatch (JObject sampleDetail) (JObject sampleTimeline)
                     ''Braum'' 100))"
    by (simp add: 4 5)
  from 1 2 3 4 5 6 show ?thesis
    by blast
qed

text \<open>
  Claim C5, amended. Let the subject be resolved, let it have a lane opponent, and let the
  resolution be mutual: the opponent's champion name and team id resolve to the opponent,
  and the opponent's lane opponent is the subject. Then, for every timeline payload, the
  stats computed for the opponent carry \<open>csDiff15\<close>, \<open>goldDiff15\<close> and \<open>xpDiff15\<close> negated
  (a difference that is null stays null).
\<close>

theorem lane_diffs_negate_when_mutual:
  assumes "parseIfString mdt = Inr (Some d)" and "participantsOf d = Some ps"
    and "findMe ps c t = Some i"
    and "laneOpponent ps (ps ! i) = Some j"
    and "findMe ps (championName (ps ! j)) (teamId (ps ! j)) = Some j"
    and "laneOpponent ps (ps ! j) = Some i"
  shows "csDiff15 (computeAdvancedStatsForMatch mdt tld (championName (ps ! j)) (teamId (ps ! j)))
           = map_option uminus (csDiff15 (computeAdvancedStatsForMatch mdt tld c t)) \<and>
         goldDiff15 (computeAdvancedStatsForMatch mdt tld (championName (ps ! j)) (teamId (ps ! j)))
           = map_option uminus (goldDiff15 (computeAdvancedStatsForMatch mdt tld c t)) \<and>
         xpDiff15 (computeAdvancedStatsForMatch mdt tld (championName (ps ! j)) (teamId (ps ! j)))
           = map_option uminus (xpDiff15 (computeAdvancedStatsForMatch mdt tld c t))"
proof -
  obtain fso where fso: "\<And>c t i. findMe ps c t = Some i \<Longrightarrow>
           computeAdvancedStatsForMatch mdt tld c t =
             (case fso of None \<Rightarrow> detailStats (ps ! i) initialResult
              | Some fs \<Rightarrow> timelineStats ps i fs (detailStats (ps ! i) initialResult))"
    using stats_of_timeline [OF assms(1,2), of tld] by blast
  note me = fso [OF assms(3)] and opp = fso [OF assms(5)]
  show ?thesis
  proof (cases fso)
    case None
    then show ?thesis
      by (simp add: me opp detailStats_fields)
  next
    case (Some fs)
    have sw: "laneDiffs ps j fs = map_option (\<lambda>(c, g, x). (- c, - g, - x)) (laneDiffs ps i fs)"
      using assms(4,6) by (rule laneDiffs_swap)
    show ?thesis
      by (cases "laneDiffs ps i fs")
         (auto simp: me opp Some timelineStats_fields detailStats_fields sw)
  qed
qed

text \<open>The theorem at the sample match, for Ahri and her lane opponent Caitlyn.\<close>

theorem lane_diffs_negate_witness:
  "csDiff15 (computeAdvancedStatsForMatch (JObject sampleDetail) (JObject sampleTimeline) ''Caitlyn'' 200)
     = map_option uminus
         (csDiff15 (computeAdvancedStatsForMatch (JObject sampleDetail) (JObject sampleTimeline) ''Ahri'' 100)) \<and>
   csDiff15 (computeAdvancedStatsForMatch (JObject sampleDetail) (JObject sampleTimeline) ''Ahri'' 100)
     = Some (- 20)"
proof -
  have ps: "participantsOf sampleDetail = Some sampleParticipants"
    by (simp add: participantsOf_def sampleDetail_def)
  have me: "findMe sampleParticipants ''Ahri'' 100 = Some 0"
    by (simp add: findMe_def sampleParticipants_def sampleParticipant_def)
  have opp: "laneOpponent sampleParticipants (sampleParticipants ! 0) = Some 2"
    by (simp add: laneOpponent_def positionLabel_def sampleParticipants_def sampleParticipant_def)
  have him: "findMe sampleParticipants (championName (sampleParticipants ! 2))
               (teamId (sampleParticipants ! 2)) = Some 2"
    by (simp add: findMe_def sampleParticipants_def sampleParticipant_def)
  have opp2: "laneOpponent sampleParticipants (sampleParticipants ! 2) = Some 0"
    by (simp add: laneOpponent_def positionLabel_def sampleParticipants_def sampleParticipant_def)
  have names: "championName (sampleParticipants ! 2) = ''Caitlyn''" "teamId (sampleParticipants ! 2) = 200"
    by (simp_all add: sampleParticipants_def sampleParticipant_def)
  have v: "csDiff15 (computeAdvancedStatsForMatch (JObject sampleDetail) (JObject sampleTimeline) ''Ahri'' 100)
     = Some (- 20)"
    by code_simp
  from lane_diffs_negate_when_mutual [of "JObject sampleDetail" sampleDetail sampleParticipants
      "''Ahri''" 100 0 2 "JObject sampleTimeline", OF _ ps me opp him opp2]
  show ?thesis
    by (simp add: names v)
qed

subsection \<open>Objective rate\<close>

lemma aliveLoop_le:
  "aliveLoop fs myPId tid deathTs objs n \<le> n + length objs"
proof (induction objs arbitrary: n)
  case Nil
  show ?case by simp
next
  case (Cons obj rest)
  have a: "aliveLoop fs myPId tid deathTs rest n \<le> n + length rest"
    by (rule Cons.IH)
  have b: "aliveLoop fs myPId tid deathTs rest (Suc n) \<le> Suc n + length rest"
    by (rule Cons.IH)
  from a have a': "aliveLoop fs myPId tid deathTs rest n \<le> Suc (n + length rest)"
    by simp
  from b have b': "aliveLoop fs myPId tid deathTs rest (Suc n) \<le> Suc (n + length rest)"
    by simp
  show ?case
    by (simp add: a' b' split: option.splits)
qed

lemma toFixed_percent:
  assumes "0 \<le> v" and "v \<le> 100"
  shows "0 \<le> toFixed 1 v \<and> toFixed 1 v \<le> 100"
proof (cases "v = 0")
  case True
  then show ?thesis by (simp add: toFixed_def)
next
  case False
  with assms have pos: "0 < v" by simp
  have lo: "0 \<le> \<lfloor>v * 10 + 1 / 2\<rfloor>"
    using pos by simp
  have "v * 10 + 1 / 2 < 1001"
    using assms(2) by simp
  then have "\<lfloor>v * 10 + 1 / 2\<rfloor> < 1001"
    by (simp add: floor_less_iff)
  then have hi: "\<lfloor>v * 10 + 1 / 2\<rfloor> \<le> 1000"
    by simp
  have eq: "toFixed 1 v = of_int \<lfloor>v * 10 + 1 / 2\<rfloor> / 10"
    using pos by (simp add: toFixed_def)
  have "(of_int \<lfloor>v * 10 + 1 / 2\<rfloor> :: rat) \<le> of_int 1000"
    using hi by (simp only: of_int_le_iff)
  then have "(of_int \<lfloor>v * 10 + 1 / 2\<rfloor> :: rat) / 10 \<le> 100"
    by simp
  moreover have "(0 :: rat) \<le> of_int \<lfloor>v * 10 + 1 / 2\<rfloor> / 10"
    using lo by simp
  ultimately show ?thesis
    unfolding eq by blast
qed

lemma team_ids:
  assumes "i < length ps"
  shows "set (myTeamPIdsOf ps i @ [pIdAt ps i])
           = {pIdAt ps j | j. j < length ps \<and> teamId (ps ! j) = teamId (ps ! i)}"
  using assms by (auto simp: myTeamPIdsOf_def)

lemma teamObjEvents_empty:
  "(teamObjEventsOf fs tm myPId = []) =
     (\<not> (\<exists>e \<in> set (allEvents fs). ev_type e = ''ELITE_MONSTER_KILL'' \<and>
            (\<exists>k. killerId e = Some k \<and> k \<in> set (tm @ [myPId]))))"
  by (auto simp: teamObjEventsOf_def filter_empty_conv split: option.splits)

lemma objectiveRateOf_None:
  "(objectiveRateOf ps i fs = None)
     = (teamObjEventsOf fs (myTeamPIdsOf ps i) (pIdAt ps i) = [])"
  by (simp add: objectiveRateOf_def Let_def)

lemma objectiveRateOf_range:
  assumes "objectiveRateOf ps i fs = Some r"
  shows "0 \<le> r \<and> r \<le> 100"
proof -
  let ?objs = "teamObjEventsOf fs (myTeamPIdsOf ps i) (pIdAt ps i)"
  let ?alive = "aliveLoop fs (pIdAt ps i) (teamId (ps ! i))
                  (map timestamp (myDeathsOf fs (pIdAt ps i))) ?objs 0"
  from assms have ne: "0 < length ?objs"
    and r: "r = toFixed 1 (of_nat ?alive / of_nat (length ?objs) * 100)"
    by (auto simp: objectiveRateOf_def Let_def split: if_splits)
  have "?alive \<le> length ?objs"
    using aliveLoop_le [of fs "pIdAt ps i" "teamId (ps ! i)" _ ?objs 0] by simp
  then have "(of_nat ?alive :: rat) \<le> of_nat (length ?objs)"
    by (simp only: of_nat_le_iff)
  then have "(of_nat ?alive :: rat) / of_nat (length ?objs) \<le> 1"
    using ne by (simp add: divide_le_eq_1)
  then have "(of_nat ?alive :: rat) / of_nat (length ?objs) * 100 \<le> 1 * 100"
    by (intro mult_right_mono) simp_all
  then have "(of_nat ?alive :: rat) / of_nat (length ?objs) * 100 \<le> 100"
    by (simp only: mult_1)
  moreover have "(0 :: rat) \<le> of_nat ?alive / of_nat (length ?objs) * 100"
    by simp
  ultimately show ?thesis
    unfolding r by (intro toFixed_percent)
qed

text \<open>
  Claim C7. Let the subject be resolved among the participants of the detail, and let the
  timeline be read (an object, or a text that parses). Then \<open>objectiveRate\<close> is null
  exactly when no elite-monster kill among the events of the timeline's frames has a
  participant of the subject's team as its killer, and a rate that is not null lies
  between 0 and 100.
\<close>

theorem objectiveRate_null_or_percentage:
  assumes "parseIfString mdt = Inr (Some d)" and "participantsOf d = Some ps"
    and "findMe ps c t = Some i"
    and "parseIfString tld = Inr (Some tline)"
  shows "(objectiveRate (computeAdvancedStatsForMatch mdt tld c t) = None) =
           (\<not> (\<exists>e \<in> set (allEvents (timelineFrames tline)). \<exists>j < length ps.
                  ev_type e = ''ELITE_MONSTER_KILL'' \<and> teamId (ps ! j) = t \<and>
                  killerId e = Some (pIdAt ps j))) \<and>
         (\<forall>r. objectiveRate (computeAdvancedStatsForMatch mdt tld c t) = Some r \<longrightarrow>
                0 \<le> r \<and> r \<le> 100)"
proof (cases "\<exists>ti fs. tl_info tline = Some ti \<and> frames ti = Some fs")
  case False
  then have nofs: "timelineFrames tline = []"
    by (auto simp: timelineFrames_def split: option.splits)
  from False have "computeAdvancedStatsForMatch mdt tld c t = detailStats (ps ! i) initialResult"
    using assms parsed_not_falsy [OF assms(4)]
    by (auto simp: computeAdvancedStatsForMatch_def statsBody_def Let_def split: option.splits)
  then have "objectiveRate (computeAdvancedStatsForMatch mdt tld c t) = None"
    by (simp add: detailStats_fields)
  then show ?thesis
    by (simp add: nofs allEvents_def)
next
  case True
  then obtain ti fs where ti: "tl_info tline = Some ti" and fs: "frames ti = Some fs"
    by blast
  have tf: "timelineFrames tline = fs"
    by (simp add: timelineFrames_def ti fs)
  have rate: "objectiveRate (computeAdvancedStatsForMatch mdt tld c t) = objectiveRateOf ps i fs"
    by (simp add: stats_reached [OF assms ti fs] timelineStats_fields)
  from findMe_Some [OF assms(3)] have i: "i < length ps" and t: "teamId (ps ! i) = t"
    by simp_all
  have "(objectiveRateOf ps i fs = None) =
           (\<not> (\<exists>e \<in> set (allEvents fs). \<exists>j < length ps.
                  ev_type e = ''ELITE_MONSTER_KILL'' \<and> teamId (ps ! j) = t \<and>
                  killerId e = Some (pIdAt ps j)))"
    unfolding objectiveRateOf_None teamObjEvents_empty team_ids [OF i] t
    by blast
  then show ?thesis
    using objectiveRateOf_range by (simp add: rate tf)
qed

text \<open>
  The theorem at the sample match: Braum, of Ahri's team, kills two elite monsters and
  Ahri's rate is \<open>50\<close>; Caitlyn's team kills none and her rate is null.
\<close>

theorem objectiveRate_witness:
  "objectiveRate (computeAdvancedStatsForMatch (JObject sampleDetail) (JObject sampleTimeline)
                    ''Ahri'' 100) = Some 50 \<and>
   objectiveRate (computeAdvancedStatsForMatch (JObject sampleDetail) (JObject sampleTimeline)
                    ''Caitlyn'' 200) = None \<and>
   (\<exists>e \<in> set (allEvents (timelineFrames sampleTimeline)). \<exists>j < length sampleParticipants.
       ev_type e = ''ELITE_MONSTER_KILL'' \<and> teamId (sampleParticipants ! j) = 100 \<and>
       killerId e = Some (pIdAt sampleParticipants j))"
proof -
  have ps: "participantsOf sampleDetail = Some sampleParticipants"
    by (simp add: participantsOf_def sampleDetail_def)
  have me: "findMe sampleParticipants ''Ahri'' 100 = Some 0"
    by (simp add: findMe_def sampleParticipants_def sampleParticipant_def)
  have v: "objectiveRate (computeAdvancedStatsForMatch (JObject sampleDetail)
             (JObject sampleTimeline) ''Ahri'' 100) = Some 50"
    by code_simp
  have w: "objectiveRate (computeAdvancedStatsForMatch (JObject sampleDetail)
             (JObject sampleTimeline) ''Caitlyn'' 200) = None"
    by code_simp
  from objectiveRate_null_or_percentage [of "JObject sampleDetail" sampleDetail
      sampleParticipants "''Ahri''" 100 0 "JObject sampleTimeline" sampleTimeline, OF _ ps me]
  show ?thesis
    using v w by auto
qed

subsection \<open>The function on payloads with malformed arrays\<close>

text \<open>On a payload whose arrays are arrays of objects, the two bodies agree.\<close>

lemma those_map_Some: "those (map Some xs) = Some xs"
  by (induction xs) simp_all

lemma allObjects_map_Some: "allObjects (map Some xs) = Inr xs"
  by (simp add: allObjects_def those_map_Some)

lemma findE_map_Some:
  "findE P (map Some xs) = Inr (map_option (\<lambda>i. (i, xs ! i)) (findIndex P xs))"
  by (induction xs) (auto simp: option.map_comp comp_def split: option.splits)

lemma pIdAt_pIdOf: "pIdAt ps i = pIdOf (ps ! i) i"
  by (simp add: pIdAt_def pIdOf_def)

lemma parseIfString_map:
  "parseIfString (map_payload f p) = map_sum id (map_option f) (parseIfString p)"
  by (cases p) simp_all

lemma falsy_map: "falsy (map_payload f p) = falsy p"
  by (cases p) simp_all

lemma frameOfLoose_loosenFrame: "frameOfLoose (loosenFrame f) = f"
proof -
  have "List.map_filter (\<lambda>e. e) (map Some es) = es" for es :: "event list"
    by (induction es) (simp_all add: List.map_filter_simps)
  then show ?thesis
    by (cases "events f") (simp_all add: frameOfLoose_def loosenFrame_def)
qed

lemma looseFrame15_loosen:
  "looseFrame15 (FramesArray (map (\<lambda>f. Some (loosenFrame f)) fs))
     = map_option loosenFrame (frame15 fs)"
  by (cases "fs = []") (simp_all add: frame15_def last_map)

lemma events_loosen:
  "concat (map (\<lambda>f. case lf_events f of Some es \<Rightarrow> es | None \<Rightarrow> []) (map loosenFrame fs))
     = map Some (allEvents fs)"
  by (induction fs) (auto simp: allEvents_def loosenFrame_def split: option.splits)

lemma looseLaneDiffs_loosen:
  assumes "i < length ps"
  shows "looseLaneDiffs (map Some ps) i (ps ! i) (FramesArray (map (\<lambda>f. Some (loosenFrame f)) fs))
           = Inr (laneDiffs ps i fs)"
proof -
  have pf: "lf_participantFrames (loosenFrame f) = participantFrames f" for f
    by (simp add: loosenFrame_def)
  show ?thesis
    unfolding looseLaneDiffs_def laneDiffs_def looseFrame15_loosen
    by (cases "frame15 fs")
      (auto simp: findE_map_Some laneOpponent_def Let_def pIdAt_pIdOf pf split: option.splits)
qed

lemma looseTimelineStats_loosen:
  assumes "i < length ps"
  shows "looseTimelineStats (map Some ps) i (ps ! i)
           (FramesArray (map (\<lambda>f. Some (loosenFrame f)) fs)) result
           = (timelineStats ps i fs result, None)"
proof -
  have m: "map (\<lambda>f. Some (loosenFrame f)) fs = map Some (map loosenFrame fs)"
    by simp
  have fr: "map frameOfLoose (map loosenFrame fs) = fs"
    by (simp add: frameOfLoose_loosenFrame comp_def)
  show ?thesis
    unfolding looseTimelineStats_def looseLaneDiffs_loosen [OF assms]
    by (simp add: m allObjects_map_Some events_loosen fr timelineStats_def Let_def
        del: map_map split: option.splits prod.splits)
qed

lemma looseStatsBody_loosen:
  "looseStatsBody (map_payload loosenDetail mdt) (map_payload loosenTimeline tld) c t
     = statsBody mdt tld c t"
proof (cases "parseIfString mdt")
  case (Inl e)
  then show ?thesis
    by (simp add: looseStatsBody_def statsBody_def parseIfString_map)
next
  case (Inr v)
  show ?thesis
  proof (cases v)
    case None
    with Inr show ?thesis
      by (simp add: looseStatsBody_def statsBody_def parseIfString_map)
  next
    case (Some d)
    show ?thesis
    proof (cases "participantsOf d")
      case None
      then have "looseParticipantsOf (loosenDetail d) = None"
        by (auto simp: participantsOf_def looseParticipantsOf_def loosenDetail_def
            split: option.splits)
      with None Inr Some show ?thesis
        by (simp add: looseStatsBody_def statsBody_def parseIfString_map)
    next
      case ps: (Some ps)
      then have lp: "looseParticipantsOf (loosenDetail d) = Some (ParticipantsArray (map Some ps))"
        by (auto simp: participantsOf_def looseParticipantsOf_def loosenDetail_def
            split: option.splits)
      show ?thesis
      proof (cases "findMe ps c t")
        case None
        then show ?thesis
          using Inr Some ps lp
          by (simp add: looseStatsBody_def statsBody_def parseIfString_map findE_map_Some
              findMe_def)
      next
        case i: (Some i)
        then have il: "i < length ps"
          by (simp add: findMe_Some)
        have f: "findE (\<lambda>p. championName p = c \<and> teamId p = t) (map Some ps)
                   = Inr (Some (i, ps ! i))"
          using i by (simp add: findE_map_Some findMe_def)
        show ?thesis
        proof (cases "parseIfString tld")
          case (Inl e)
          then show ?thesis
            using Inr Some ps lp i f
            by (simp add: looseStatsBody_def statsBody_def parseIfString_map falsy_map Let_def)
        next
          case tv: (Inr tv)
          show ?thesis
            using Inr Some ps lp i f tv
            by (auto simp: looseStatsBody_def statsBody_def parseIfString_map falsy_map Let_def
                loosenTimeline_def looseTimelineStats_loosen [OF il] split: option.splits)
        qed
      qed
    qed
  qed
qed

lemma computeLoose_loosen:
  "computeAdvancedStatsForMatchLoose (map_payload loosenDetail mdt) (map_payload loosenTimeline tld) c t
     = Inr (computeAdvancedStatsForMatch mdt tld c t)"
  by (simp add: computeAdvancedStatsForMatchLoose_def computeAdvancedStatsForMatch_def
      looseStatsBody_loosen split: prod.splits option.splits)

subsection \<open>Failures inside the computation\<close>









subsection \<open>Isolated deaths\<close>

text \<open>The distance test of the model is the source's test on the Euclidean distance.\<close>

lemma within1500_sqrt:
  "within1500 a b =
     (sqrt (real_of_int ((pos_x a - pos_x b)\<^sup>2 + (pos_y a - pos_y b)\<^sup>2)) \<le> 1500)"
proof -
  let ?s = "(pos_x a - pos_x b)\<^sup>2 + (pos_y a - pos_y b)\<^sup>2"
  have "(sqrt (real_of_int ?s) \<le> 1500) = (sqrt (real_of_int ?s) \<le> sqrt (1500\<^sup>2))"
    by simp
  also have "\<dots> = (real_of_int ?s \<le> 1500\<^sup>2)"
    by (rule real_sqrt_le_iff)
  also have "\<dots> = (?s \<le> 1500 * 1500)"
    by (simp add: power2_eq_square flip: of_int_le_iff [where ?'a = real])
  also have "\<dots> = within1500 a b"
    by (simp add: within1500_def Let_def power2_eq_square)
  finally show ?thesis by simp
qed

lemma hasNearbyTeammate_intro:
  "tm \<in> set tms \<Longrightarrow> pfs tm = Some tmFrame \<Longrightarrow> pf_position tmFrame = Some p \<Longrightarrow>
   within1500 deathPos p \<Longrightarrow> hasNearbyTeammate pfs deathPos tms"
  by (induction tms) (auto split: option.splits)

lemma isolatedLoop_count:
  "isolatedLoop fs tm objs ds n = n + isolatedLoop fs tm objs ds 0"
proof (induction ds arbitrary: n)
  case Nil
  show ?case by simp
next
  case (Cons death rest)
  have s: "isolatedLoop fs tm objs rest (Suc n) = Suc n + isolatedLoop fs tm objs rest 0"
    by (rule Cons.IH)
  have s1: "isolatedLoop fs tm objs rest (Suc 0) = Suc 0 + isolatedLoop fs tm objs rest 0"
    by (rule Cons.IH)
  have s0: "isolatedLoop fs tm objs rest n = n + isolatedLoop fs tm objs rest 0"
    by (rule Cons.IH)
  show ?case
    by (simp add: s s1 s0 split: option.splits)
qed

lemma isolatedLoop_append:
  "isolatedLoop fs tm objs (xs @ ys) n
     = isolatedLoop fs tm objs ys (isolatedLoop fs tm objs xs n)"
  by (induction xs arbitrary: n) (simp_all split: option.splits)

lemma isolatedLoop_near_ally:
  assumes "ev_position death = Some deathPos"
    and "frameAt fs (timestamp death) = Some nearFrame"
    and "participantFrames nearFrame = Some pfs"
    and "hasNearbyTeammate pfs deathPos tm"
  shows "isolatedLoop fs tm objs (death # rest) n = isolatedLoop fs tm objs rest n"
  using assms by simp

text \<open>
  What the loop does guarantee is about the frame it reads,
  \<open>frames[min(floor(t / 60000), length - 1)]\<close>, the frame of the minute in which the death
  falls: a death with a position and a team mate of the subject within Euclidean
  distance 1500 in that frame adds nothing to the count.
\<close>

lemma death_near_ally_in_read_frame:
  assumes "parseIfString mdt = Inr (Some d)" and "participantsOf d = Some ps"
    and "findMe ps c t = Some i"
    and "parseIfString tld = Inr (Some tline)"
    and "myDeathsOf (timelineFrames tline) (pIdAt ps i) = earlier @ death # later"
    and "ev_position death = Some deathPos"
    and "frameAt (timelineFrames tline) (timestamp death) = Some nearFrame"
    and "participantFrames nearFrame = Some pfs"
    and "ally \<in> set (myTeamPIdsOf ps i)"
    and "pfs ally = Some allyFrame"
    and "pf_position allyFrame = Some allyPos"
    and "sqrt (real_of_int ((pos_x deathPos - pos_x allyPos)\<^sup>2
                            + (pos_y deathPos - pos_y allyPos)\<^sup>2)) \<le> 1500"
  shows "isolatedDeaths (computeAdvancedStatsForMatch mdt tld c t)
           = Some (isolatedLoop (timelineFrames tline) (myTeamPIdsOf ps i)
                     (objectiveEventsOf (timelineFrames tline)) (earlier @ later) 0)"
proof -
  let ?fs = "timelineFrames tline"
  have "?fs \<noteq> []"
    using assms(7) by (auto simp: frameAt_def Let_def split: if_splits)
  then obtain ti where ti: "tl_info tline = Some ti" and fs: "frames ti = Some ?fs"
    by (auto simp: timelineFrames_def split: option.splits)
  have near: "hasNearbyTeammate pfs deathPos (myTeamPIdsOf ps i)"
    using assms(9-12) by (auto intro: hasNearbyTeammate_intro simp: within1500_sqrt)
  have "isolatedLoop ?fs (myTeamPIdsOf ps i) (objectiveEventsOf ?fs) (earlier @ death # later) 0
        = isolatedLoop ?fs (myTeamPIdsOf ps i) (objectiveEventsOf ?fs) (earlier @ later) 0"
    by (simp only: isolatedLoop_append isolatedLoop_near_ally [OF assms(6-8) near])
  then show ?thesis
    by (simp add: stats_reached [OF assms(1-4) ti fs] timelineStats_fields assms(5))
qed

text \<open>
  Claim C6 fails of the code. The comment at line 1062 announces the nearest frame to the
  timestamp of the death, as the claim does, and \<open>getNearestFrame\<close> of the same file
  computes it; the loop reads \<open>frames[min(floor(t / 60000), length - 1)]\<close> instead, the
  last frame at or before the death. At the sample timeline of two frames Ahri dies at
  59000 milliseconds at (1000, 1000). The nearest frame is the one at 60000, 1000
  milliseconds away, and there her team mate Braum, who never dies, stands at
  (2000, 1000), at distance 1000. The loop reads the frame at 0, where Braum stands at
  (9000, 9000), finds no team mate near, and counts the death: \<open>isolatedDeaths\<close> is \<open>1\<close>.
\<close>

theorem death_near_ally_counted:
  "myDeathsOf (timelineFrames sampleTimelineLateDeath) (pIdAt sampleParticipants 0)
     = [sampleLateDeath] \<and>
   ev_position sampleLateDeath = Some \<lparr> pos_x = 1000, pos_y = 1000 \<rparr> \<and>
   getNearestFrame (timelineFrames sampleTimelineLateDeath) (timestamp sampleLateDeath)
     = Some sampleFrameMinute1 \<and>
   2 \<in> set (myTeamPIdsOf sampleParticipants 0) \<and>
   map_option (\<lambda>pfs. map_option pf_position (pfs 2)) (participantFrames sampleFrameMinute1)
     = Some (Some (Some \<lparr> pos_x = 2000, pos_y = 1000 \<rparr>)) \<and>
   sqrt (real_of_int ((1000 - 2000)\<^sup>2 + (1000 - 1000)\<^sup>2)) \<le> 1500 \<and>
   within1500 \<lparr> pos_x = 1000, pos_y = 1000 \<rparr> \<lparr> pos_x = 2000, pos_y = 1000 \<rparr> \<and>
   killEventsOf (timelineFrames sampleTimelineLateDeath) = [sampleLateDeath] \<and>
   frameAt (timelineFrames sampleTimelineLateDeath) (timestamp sampleLateDeath)
     = Some sampleFrameMinute0 \<and>
   isolatedDeaths (computeAdvancedStatsForMatch (JObject sampleDetail)
                     (JObject sampleTimelineLateDeath) ''Ahri'' 100) = Some 1"
proof -
  have fs: "timelineFrames sampleTimelineLateDeath = [sampleFrameMinute0, sampleFrameMinute1]"
    by (simp add: timelineFrames_def sampleTimelineLateDeath_def)
  have deaths: "myDeathsOf (timelineFrames sampleTimelineLateDeath) (pIdAt sampleParticipants 0)
                  = [sampleLateDeath]"
    by code_simp
  have pos: "ev_position sampleLateDeath = Some \<lparr> pos_x = 1000, pos_y = 1000 \<rparr>"
    by (simp add: sampleLateDeath_def)
  have nearest: "getNearestFrame (timelineFrames sampleTimelineLateDeath)
                   (timestamp sampleLateDeath) = Some sampleFrameMinute1"
    unfolding fs
    by (simp add: getNearestFrame_def sampleLateDeath_def sampleFrameMinute0_def
        sampleFrameMinute1_def)
  have ally: "(2 :: int) \<in> set (myTeamPIdsOf sampleParticipants 0)"
    by code_simp
  have allyPos: "map_option (\<lambda>pfs. map_option pf_position (pfs (2 :: int)))
                   (participantFrames sampleFrameMinute1)
                   = Some (Some (Some \<lparr> pos_x = 2000, pos_y = 1000 \<rparr>))"
    by (simp add: sampleFrameMinute1_def sampleParticipantFrame_def)
  have near: "within1500 \<lparr> pos_x = 1000, pos_y = 1000 \<rparr> \<lparr> pos_x = 2000, pos_y = 1000 \<rparr>"
    by (simp add: within1500_def)
  have dist: "sqrt (real_of_int ((1000 - 2000)\<^sup>2 + (1000 - 1000)\<^sup>2)) \<le> 1500"
    using near unfolding within1500_sqrt by simp
  have kills: "killEventsOf (timelineFrames sampleTimelineLateDeath) = [sampleLateDeath]"
    by code_simp
  have reads: "frameAt (timelineFrames sampleTimelineLateDeath) (timestamp sampleLateDeath)
                 = Some sampleFrameMinute0"
    unfolding fs by (simp add: frameAt_def sampleLateDeath_def)
  have counted: "isolatedDeaths (computeAdvancedStatsForMatch (JObject sampleDetail)
                   (JObject sampleTimelineLateDeath) ''Ahri'' 100) = Some 1"
    by code_simp
  show ?thesis
    by (intro conjI) (fact deaths pos nearest ally allyPos dist near kills reads counted)+
qed

section \<open>Properties of the BadgeEvaluator\<close>

text \<open>The loop returns the entries whose predicate returns a true value, in catalog order.\<close>

lemma evaluateLoop_filter:
  "evaluateLoop ctx bs earned
     = earned @ map (\<lambda>b. (badge_name b, badge_description b))
                  (filter (\<lambda>b. evaluate b ctx = Inr True) bs)"
proof (induction bs arbitrary: earned)
  case Nil
  show ?case by simp
next
  case (Cons b bs)
  show ?case
    by (cases "evaluate b ctx") (simp_all add: Cons.IH split: bool.splits)
qed

text \<open>
  Claim C8. Let the match have a context and let the predicate of a catalog entry raise
  on it. Then \<open>evaluateBadges\<close> returns (it does not raise), the entry is not among the
  earned badges, and the result is the earned subset of the other entries, those before
  and those after it: the same result as for the catalog without the entry.
\<close>

theorem faulty_badge_skipped:
  assumes "buildContext match = Inr (Some ctx)"
    and "evaluate b ctx = Inl err"
  shows "evaluateBadges (before @ b # after) match
           = Inr (map (\<lambda>b. (badge_name b, badge_description b))
                    (filter (\<lambda>b. evaluate b ctx = Inr True) (before @ after))) \<and>
         evaluateBadges (before @ b # after) match = evaluateBadges (before @ after) match"
  using assms by (simp add: evaluateBadges_def evaluateLoop_filter)

text \<open>
  The theorem at the sample match and a catalog whose second entry raises: the entry
  after it is still evaluated, and the result is that of the two other entries.
\<close>

theorem faulty_badge_witness:
  "evaluateBadges ([kingOfTheDocks] @ faultyBadge # [bloodCrowned]) sampleMatch
     = evaluateBadges ([kingOfTheDocks] @ [bloodCrowned]) sampleMatch \<and>
   map fst (projr (evaluateBadges ([kingOfTheDocks] @ [bloodCrowned]) sampleMatch))
     = [''King of the Docks'']"
proof -
  obtain ctx where ctx: "buildContext sampleMatch = Inr (Some ctx)"
    by (simp add: buildContext_def sampleMatch_def completeRow_def sampleDetail_def
        sampleParticipants_def sampleParticipant_def)
  have f: "evaluate faultyBadge ctx = Inl TypeError"
    by (simp add: faultyBadge_def)
  have v: "map fst (projr (evaluateBadges ([kingOfTheDocks] @ [bloodCrowned]) sampleMatch))
     = [''King of the Docks'']"
    by code_simp
  have e: "evaluateBadges ([kingOfTheDocks] @ faultyBadge # [bloodCrowned]) sampleMatch
     = evaluateBadges ([kingOfTheDocks] @ [bloodCrowned]) sampleMatch"
    using faulty_badge_skipped [OF ctx f, of "[kingOfTheDocks]" "[bloodCrowned]"]
    by (rule conjunct2)
  from e v show ?thesis
    by (rule conjI)
qed

text \<open>
  Claim C10. For a match row whose detail payload is absent (null or the empty text), or
  whose detail lists participants none of whom carries both the row's champion name and
  the row's team id, \<open>evaluateBadges\<close> returns the empty list, whatever the catalog is: it
  does not raise and no predicate has a say.
\<close>

theorem no_context_no_badges:
  assumes "falsy (row_rawJson match) \<or>
           (\<exists>raw minfo ps. parseIfString (row_rawJson match) = Inr (Some raw) \<and>
              info raw = Some minfo \<and> participants minfo = Some ps \<and>
              \<not> (\<exists>p \<in> set ps. Some (championName p) = row_championName match \<and>
                                 Some (teamId p) = row_teamId match))"
  shows "evaluateBadges BADGES match = Inr []"
proof -
  have nf: "find P xs = None" if "\<not> (\<exists>x \<in> set xs. P x)" for P :: "participant \<Rightarrow> bool" and xs
    using that by (simp add: find_None_iff)
  from assms show ?thesis
  proof
    assume "falsy (row_rawJson match)"
    then show ?thesis
      by (simp add: evaluateBadges_def buildContext_def)
  next
    assume "\<exists>raw minfo ps. parseIfString (row_rawJson match) = Inr (Some raw) \<and>
              info raw = Some minfo \<and> participants minfo = Some ps \<and>
              \<not> (\<exists>p \<in> set ps. Some (championName p) = row_championName match \<and>
                                 Some (teamId p) = row_teamId match)"
    then obtain raw minfo ps where p: "parseIfString (row_rawJson match) = Inr (Some raw)"
      and i: "info raw = Some minfo" and ps: "participants minfo = Some ps"
      and none: "\<not> (\<exists>p \<in> set ps. Some (championName p) = row_championName match \<and>
                                 Some (teamId p) = row_teamId match)"
      by blast
    have "buildContext match = Inr None"
      by (simp add: buildContext_def parsed_not_falsy [OF p] p i ps nf [OF none])
    then show ?thesis
      by (simp add: evaluateBadges_def)
  qed
qed

text \<open>
  The theorem at the sample row without its detail and at the sample row under a champion
  that did not play, with a catalog holding an entry that is earned on the sample match
  and an entry that raises.
\<close>

theorem no_context_witness:
  "evaluateBadges [kingOfTheDocks, faultyBadge] (sampleMatch\<lparr> row_rawJson := JNull \<rparr>) = Inr [] \<and>
   evaluateBadges [kingOfTheDocks, faultyBadge] (sampleMatch\<lparr> row_championName := Some ''Zed'' \<rparr>)
     = Inr []"
proof -
  have 1: "falsy (row_rawJson (sampleMatch\<lparr> row_rawJson := JNull \<rparr>))"
    by simp
  have 2: "\<exists>raw minfo ps.
      parseIfString (row_rawJson (sampleMatch\<lparr> row_championName := Some ''Zed'' \<rparr>)) = Inr (Some raw) \<and>
      info raw = Some minfo \<and> participants minfo = Some ps \<and>
      \<not> (\<exists>p \<in> set ps. Some (championName p) = row_championName (sampleMatch\<lparr> row_championName := Some ''Zed'' \<rparr>) \<and>
                        Some (teamId p) = row_teamId (sampleMatch\<lparr> row_championName := Some ''Zed'' \<rparr>))"
    by (simp add: sampleMatch_def completeRow_def sampleDetail_def
        sampleParticipants_def sampleParticipant_def)
  from no_context_no_badges [of "sampleMatch\<lparr> row_rawJson := JNull \<rparr>" "[kingOfTheDocks, faultyBadge]"]
    no_context_no_badges [of "sampleMatch\<lparr> row_championName := Some ''Zed'' \<rparr>" "[kingOfTheDocks, faultyBadge]"]
  show ?thesis
    using 1 2 by blast
qed

section \<open>Properties of the RankCache\<close>

text \<open>
  Claim C9. \<open>getPlayerRank\<close> returns the cached entry when its \<open>fetchedAt\<close> is later than
  \<open>now - maxAge\<close>, without a remote call. Otherwise, when the remote fetch fails, it
  returns the entry the table holds for the id, whatever its age (the table has one row
  per id), and null when it holds none; the table is left as it was. It returns null only
  when the table holds no entry for the id and the remote fetch has failed.
\<close>

theorem rank_cache_fallback:
  "(\<forall>cached. ranks pid = Some cached \<and> now0 - maxAgeMs < fetchedAt cached \<longrightarrow>
      getPlayerRank getLeague now0 now1 ranks pid maxAgeMs = (Some cached, ranks)) \<and>
   ((\<forall>cached. ranks pid = Some cached \<longrightarrow> \<not> now0 - maxAgeMs < fetchedAt cached) \<and>
    (\<exists>err. getLeague pid = Inl err) \<longrightarrow>
      getPlayerRank getLeague now0 now1 ranks pid maxAgeMs = (ranks pid, ranks)) \<and>
   (fst (getPlayerRank getLeague now0 now1 ranks pid maxAgeMs) = None \<longrightarrow>
      ranks pid = None \<and> (\<exists>err. getLeague pid = Inl err))"
proof (intro conjI allI impI)
  fix cached
  assume "ranks pid = Some cached \<and> now0 - maxAgeMs < fetchedAt cached"
  then have "freshRank ranks pid (now0 - maxAgeMs) = Some cached"
    by (simp add: freshRank_def)
  then show "getPlayerRank getLeague now0 now1 ranks pid maxAgeMs = (Some cached, ranks)"
    by (simp add: getPlayerRank_def)
next
  assume a: "(\<forall>cached. ranks pid = Some cached \<longrightarrow> \<not> now0 - maxAgeMs < fetchedAt cached) \<and>
             (\<exists>err. getLeague pid = Inl err)"
  then have stale: "freshRank ranks pid (now0 - maxAgeMs) = None"
    by (auto simp: freshRank_def split: option.splits)
  from a obtain err where "getLeague pid = Inl err"
    by blast
  with stale show "getPlayerRank getLeague now0 now1 ranks pid maxAgeMs = (ranks pid, ranks)"
    by (simp add: getPlayerRank_def)
next
  assume n: "fst (getPlayerRank getLeague now0 now1 ranks pid maxAgeMs) = None"
  have stale: "freshRank ranks pid (now0 - maxAgeMs) = None"
  proof (cases "freshRank ranks pid (now0 - maxAgeMs)")
    case None
    then show ?thesis .
  next
    case (Some cached)
    with n show ?thesis
      by (simp add: getPlayerRank_def)
  qed
  have failed: "\<exists>err. getLeague pid = Inl err"
  proof (cases "getLeague pid")
    case (Inl err)
    then show ?thesis by blast
  next
    case (Inr leagueData)
    with n stale show ?thesis
      by (simp add: getPlayerRank_def Let_def)
  qed
  then obtain err where "getLeague pid = Inl err"
    by blast
  with n stale show "ranks pid = None"
    by (simp add: getPlayerRank_def)
  from failed show "\<exists>err. getLeague pid = Inl err" .
qed

text \<open>
  The theorem with a failing remote call: an entry two days old is returned, an entry
  within the day is returned, and an id without entry gives null.
\<close>

theorem rank_cache_witness:
  "getPlayerRank (\<lambda>pid. Inl RequestFailed) (1000 + 2 * RANK_CACHE_TTL_MS) (1000 + 2 * RANK_CACHE_TTL_MS)
     [''puuid-1'' \<mapsto> sampleRank] ''puuid-1'' RANK_CACHE_TTL_MS
     = (Some sampleRank, [''puuid-1'' \<mapsto> sampleRank]) \<and>
   getPlayerRank (\<lambda>pid. Inl RequestFailed) 2000 2000
     [''puuid-1'' \<mapsto> sampleRank] ''puuid-1'' RANK_CACHE_TTL_MS
     = (Some sampleRank, [''puuid-1'' \<mapsto> sampleRank]) \<and>
   getPlayerRank (\<lambda>pid. Inl RequestFailed) 2000 2000
     [''puuid-1'' \<mapsto> sampleRank] ''puuid-2'' RANK_CACHE_TTL_MS
     = (None, [''puuid-1'' \<mapsto> sampleRank])"
proof -
  have stale: "\<forall>cached. [''puuid-1'' \<mapsto> sampleRank] ''puuid-1'' = Some cached \<longrightarrow>
      \<not> (1000 + 2 * RANK_CACHE_TTL_MS) - RANK_CACHE_TTL_MS < fetchedAt cached"
    by (simp add: sampleRank_def RANK_CACHE_TTL_MS_def)
  have fresh: "[''puuid-1'' \<mapsto> sampleRank] ''puuid-1'' = Some sampleRank \<and>
      2000 - RANK_CACHE_TTL_MS < fetchedAt sampleRank"
    by (simp add: sampleRank_def RANK_CACHE_TTL_MS_def)
  have none: "\<forall>cached. [''puuid-1'' \<mapsto> sampleRank] ''puuid-2'' = Some cached \<longrightarrow>
      \<not> 2000 - RANK_CACHE_TTL_MS < fetchedAt cached"
    by simp
  have fail: "\<exists>err. (\<lambda>pid :: string. (Inl RequestFailed :: error + league_data)) p = Inl err" for p
    by simp
  from rank_cache_fallback [of "[''puuid-1'' \<mapsto> sampleRank]" "''puuid-1''"
      "1000 + 2 * RANK_CACHE_TTL_MS" RANK_CACHE_TTL_MS "\<lambda>pid. Inl RequestFailed"
      "1000 + 2 * RANK_CACHE_TTL_MS"]
    rank_cache_fallback [of "[''puuid-1'' \<mapsto> sampleRank]" "''puuid-1''"
      2000 RANK_CACHE_TTL_MS "\<lambda>pid. Inl RequestFailed" 2000]
    rank_cache_fallback [of "[''puuid-1'' \<mapsto> sampleRank]" "''puuid-2''"
      2000 RANK_CACHE_TTL_MS "\<lambda>pid. Inl RequestFailed" 2000]
  show ?thesis
    using stale fresh none fail by simp
qed

end
